theory Spec2Isabelle
  imports Main
begin

section \<open>JavaScript strings\<close>

text \<open>
  A JavaScript string is a sequence of UTF-16 code units. The model uses \<open>string\<close>, one
  \<open>char\<close> per code unit, for the code units U+0000 to U+00FF. The methods below are the ones
  the launcher and the settings module call, restricted to that range.
\<close>

text \<open>
  \<open>String.prototype.trim\<close> strips WhiteSpace and LineTerminator code units from both ends.
  Below U+0100 these are TAB, LF, VT, FF, CR, SPACE and NO-BREAK SPACE.
\<close>

definition isWhiteSpace :: "char \<Rightarrow> bool" where
  "isWhiteSpace c = (of_char c \<in> {9, 10, 11, 12, 13, 32, 160 :: nat})"

definition trim :: "string \<Rightarrow> string" where
  "trim s = rev (dropWhile isWhiteSpace (rev (dropWhile isWhiteSpace s)))"

text \<open>
  \<open>String.prototype.toLowerCase\<close>: below U+0100 the upper-case letters are A to Z and
  U+00C0 to U+00DE without the multiplication sign U+00D7; each maps to the code unit 32 above.
\<close>

definition toLowerChar :: "char \<Rightarrow> char" where
  "toLowerChar c =
     (let n = (of_char c :: nat) in
      if (65 \<le> n \<and> n \<le> 90) \<or> (192 \<le> n \<and> n \<le> 222 \<and> n \<noteq> 215)
      then char_of (n + 32) else c)"

definition toLowerCase :: "string \<Rightarrow> string" where
  "toLowerCase s = map toLowerChar s"

text \<open>
  \<open>s.replace(/c/g, r)\<close> for a one-character pattern \<open>c\<close> and a replacement text \<open>r\<close>
  without \<open>$\<close>: every occurrence of \<open>c\<close> becomes \<open>r\<close>.
\<close>

definition replaceAll :: "char \<Rightarrow> string \<Rightarrow> string \<Rightarrow> string" where
  "replaceAll c r s = concat (map (\<lambda>x. if x = c then r else [x]) s)"

text \<open>\<open>s.includes(pat)\<close>: \<open>pat\<close> occurs in \<open>s\<close> as a contiguous run.\<close>

fun str_includes :: "string \<Rightarrow> string \<Rightarrow> bool" where
  "str_includes [] pat = (pat = [])"
| "str_includes (c # cs) pat = (take (length pat) (c # cs) = pat \<or> str_includes cs pat)"

text \<open>\<open>lines.join(sep)\<close>.\<close>

fun joinWith :: "string \<Rightarrow> string list \<Rightarrow> string" where
  "joinWith sep [] = []"
| "joinWith sep [x] = x"
| "joinWith sep (x # y # ys) = x @ sep @ joinWith sep (y # ys)"

text \<open>
  Truthiness of an optional string parameter (\<open>toolCommand?: string\<close>): \<open>undefined\<close> and
  the empty string are falsy. \<open>truthy v\<close> is \<open>Some t\<close> exactly when \<open>if (v)\<close> takes the
  then-branch, with \<open>t\<close> the string.
\<close>

definition truthy :: "string option \<Rightarrow> string option" where
  "truthy v = (case v of None \<Rightarrow> None | Some s \<Rightarrow> if s = [] then None else Some s)"


section \<open>Platform, console and file system\<close>

text \<open>The flags of Obsidian's \<open>Platform\<close> object that the plugin reads.\<close>

record Platform =
  isDesktopApp :: bool
  isMacOS :: bool
  isWin :: bool
  isLinux :: bool

text \<open>A thrown Node system error, by its code (\<open>EACCES\<close>, \<open>ENOSPC\<close>, ...).\<close>

datatype error = SystemError string

text \<open>
  A console line: its level and its label. \<open>logger.log(label, payload)\<close> prints through
  \<open>console.debug\<close>; the payload object is a debugging aid and is not recorded.
\<close>

datatype console_entry = Debug string | Warn string

text \<open>
  The state a launch runs in: the file system \<open>world\<close> (owned by the operating system, of
  an arbitrary type \<open>'w\<close>), the \<open>logger.enabled\<close> flag of \<open>logger.ts\<close>, and the console.
\<close>

record 'w state =
  world :: 'w
  logger_enabled :: bool
  console :: "console_entry list"

text \<open>
  The functions of Node's \<open>os\<close>, \<open>path\<close> and \<open>fs\<close> modules that \<open>launcher.ts\<close> imports.
  They are not code of the plugin, so the launcher takes them as a parameter and every theorem
  holds for whatever they do. A file system call returns the world it leaves behind together
  with the error it throws, if any. \<open>rmSync\<close> stands for the call with
  \<open>{ recursive: true, force: true }\<close>, \<open>writeFileSync\<close> takes the \<open>mode\<close> option as a number.
\<close>

record 'w node =
  tmpdir :: "'w \<Rightarrow> string"
  join :: "string \<Rightarrow> string \<Rightarrow> string"
  mkdtempSync :: "string \<Rightarrow> 'w \<Rightarrow> (error + string) \<times> 'w"
  writeFileSync :: "string \<Rightarrow> string \<Rightarrow> nat \<Rightarrow> 'w \<Rightarrow> error option \<times> 'w"
  rmSync :: "string \<Rightarrow> 'w \<Rightarrow> error option \<times> 'w"

text \<open>
  A statement sequence that may throw: it maps the state to the value returned (\<open>Inr\<close>) or the
  error thrown (\<open>Inl\<close>), and the state at that point.
\<close>

type_synonym ('a, 'w) prog = "'w state \<Rightarrow> (error + 'a) \<times> 'w state"

definition ret :: "'a \<Rightarrow> ('a, 'w) prog" where
  "ret x st = (Inr x, st)"

definition bind :: "('a, 'w) prog \<Rightarrow> ('a \<Rightarrow> ('b, 'w) prog) \<Rightarrow> ('b, 'w) prog" where
  "bind m f st = (case m st of (Inl e, st1) \<Rightarrow> (Inl e, st1) | (Inr x, st1) \<Rightarrow> f x st1)"

text \<open>\<open>try { m } catch (error) { h error }\<close>.\<close>

definition try_catch :: "('a, 'w) prog \<Rightarrow> (error \<Rightarrow> ('a, 'w) prog) \<Rightarrow> ('a, 'w) prog" where
  "try_catch m h st = (case m st of (Inl e, st1) \<Rightarrow> h e st1 | (Inr x, st1) \<Rightarrow> (Inr x, st1))"

text \<open>\<open>logger.log\<close> of \<open>logger.ts\<close>: prints only when the logger is enabled.\<close>

definition logger_log :: "string \<Rightarrow> (unit, 'w) prog" where
  "logger_log label st =
     (Inr (), if logger_enabled st then st\<lparr>console := console st @ [Debug label]\<rparr> else st)"

definition console_warn :: "string \<Rightarrow> (unit, 'w) prog" where
  "console_warn label st = (Inr (), st\<lparr>console := console st @ [Warn label]\<rparr>)"

text \<open>The file system calls, run on the world of the state.\<close>

definition fs_mkdtempSync :: "'w node \<Rightarrow> string \<Rightarrow> (string, 'w) prog" where
  "fs_mkdtempSync os pfx st =
     (case mkdtempSync os pfx (world st) of (r, w) \<Rightarrow> (r, st\<lparr>world := w\<rparr>))"

definition fs_writeFileSync :: "'w node \<Rightarrow> string \<Rightarrow> string \<Rightarrow> nat \<Rightarrow> (unit, 'w) prog" where
  "fs_writeFileSync os file content mode st =
     (case writeFileSync os file content mode (world st) of
        (None, w) \<Rightarrow> (Inr (), st\<lparr>world := w\<rparr>)
      | (Some e, w) \<Rightarrow> (Inl e, st\<lparr>world := w\<rparr>))"

definition fs_rmSync :: "'w node \<Rightarrow> string \<Rightarrow> (unit, 'w) prog" where
  "fs_rmSync os dir st =
     (case rmSync os dir (world st) of
        (None, w) \<Rightarrow> (Inr (), st\<lparr>world := w\<rparr>)
      | (Some e, w) \<Rightarrow> (Inl e, st\<lparr>world := w\<rparr>))"


section \<open>launcher.ts\<close>

text \<open>
  The \<open>cleanup\<close> closure of \<open>ensureTempScript\<close>, as data: the closure captures \<open>dir\<close> and
  nothing else. \<open>run_cleanup\<close> below is its body.
\<close>

datatype cleanup_fn = RemoveTempDir string

record LaunchCommand =
  command :: string
  cleanup :: "cleanup_fn option"

definition sanitizeTerminalApp :: "string \<Rightarrow> string" where
  "sanitizeTerminalApp v = trim v"

definition escapeDoubleQuotes :: "string \<Rightarrow> string" where
  "escapeDoubleQuotes v = replaceAll (CHR 0x22) [CHR 0x5C, CHR 0x22] v"

definition run_cleanup :: "'w node \<Rightarrow> cleanup_fn \<Rightarrow> (unit, 'w) prog" where
  "run_cleanup os c =
     (case c of RemoveTempDir dir \<Rightarrow>
        try_catch
          (bind (fs_rmSync os dir) (\<lambda>_. logger_log ''Cleaned temp script''))
          (\<lambda>e. console_warn ''[open-in-terminal] Failed to remove temp script''))"

text \<open>The script is written with \<open>mode: 0o755\<close>, which is 493.\<close>

definition ensureTempScript :: "'w node \<Rightarrow> string \<Rightarrow> (string \<times> cleanup_fn, 'w) prog" where
  "ensureTempScript os content st =
     bind (fs_mkdtempSync os (join os (tmpdir os (world st)) ''open-in-terminal-'')) (\<lambda>dir.
       let filePath = join os dir ''launch.command'' in
       bind (logger_log ''Creating temp script'') (\<lambda>_.
       bind (fs_writeFileSync os filePath content 493) (\<lambda>_.
       ret (filePath, RemoveTempDir dir)))) st"

definition buildMacLaunch ::
  "'w node \<Rightarrow> string \<Rightarrow> string \<Rightarrow> string option \<Rightarrow> (LaunchCommand option, 'w) prog" where
  "buildMacLaunch os appName vaultPath toolCommand =
     (let app = sanitizeTerminalApp appName in
      if app = [] then ret None
      else case truthy toolCommand of
        None \<Rightarrow>
          (let escapedApp = escapeDoubleQuotes app;
               escapedPath = escapeDoubleQuotes vaultPath;
               cmd = ''open -na \"'' @ escapedApp @ ''\" \"'' @ escapedPath @ ''\"''
           in bind (logger_log ''macOS simple launch'')
                (\<lambda>_. ret (Some \<lparr>command = cmd, cleanup = None\<rparr>)))
      | Some _ \<Rightarrow>
          (let escapedVaultPath = escapeDoubleQuotes vaultPath;
               scriptLines = [''#!/bin/bash'', ''cd \"'' @ escapedVaultPath @ ''\"''];
               scriptLines = (case truthy toolCommand of
                                Some t \<Rightarrow> scriptLines @ [t] | None \<Rightarrow> scriptLines);
               scriptLines = scriptLines @ [''exec \"$SHELL\"'']
           in bind (ensureTempScript os (joinWith ''\<newline>'' scriptLines)) (\<lambda>(file, cl).
                let cmd = ''open -na \"'' @ escapeDoubleQuotes app @ ''\" \"'' @ file @ ''\"''
                in bind (logger_log ''macOS script launch'')
                     (\<lambda>_. ret (Some \<lparr>command = cmd, cleanup = Some cl\<rparr>)))))"

definition buildWindowsLaunch ::
  "string \<Rightarrow> string \<Rightarrow> string option \<Rightarrow> (LaunchCommand option, 'w) prog" where
  "buildWindowsLaunch appName vaultPath toolCommand =
     (let app = sanitizeTerminalApp appName in
      if app = [] then ret None
      else
        let escapedVault = replaceAll (CHR 0x22) [CHR 0x22] vaultPath;
            cdCommand = ''cd /d \"'' @ escapedVault @ ''\"'';
            tool = (case truthy toolCommand of Some t \<Rightarrow> '' && '' @ t | None \<Rightarrow> []);
            lowerApp = toLowerCase app
        in
        if lowerApp = ''cmd.exe'' \<or> lowerApp = ''cmd'' then
          (let cmd = (case truthy toolCommand of
                        Some _ \<Rightarrow> ''start \"\" cmd.exe /K \"'' @ cdCommand @ tool @ ''\"''
                      | None \<Rightarrow> ''start \"\" cmd.exe /K \"'' @ cdCommand @ ''\"'')
           in bind (logger_log ''Windows launch (cmd.exe)'')
                (\<lambda>_. ret (Some \<lparr>command = cmd, cleanup = None\<rparr>)))
        else if lowerApp = ''powershell'' \<or> lowerApp = ''powershell.exe'' then
          (case truthy toolCommand of
             None \<Rightarrow>
               (let cmd = ''start \"\" powershell -NoExit -Command \"Set-Location '' @ [CHR 0x27]
                            @ replaceAll (CHR 0x27) [CHR 0x27, CHR 0x27] vaultPath
                            @ [CHR 0x27] @ '';\"''
                in bind (logger_log ''Windows launch (powershell)'')
                     (\<lambda>_. ret (Some \<lparr>command = cmd, cleanup = None\<rparr>)))
           | Some t \<Rightarrow>
               (let cmd = ''start \"\" powershell -NoExit -Command \"Set-Location '' @ [CHR 0x27]
                            @ replaceAll (CHR 0x27) [CHR 0x27, CHR 0x27] vaultPath
                            @ [CHR 0x27] @ ''; '' @ t @ ''\"''
                in bind (logger_log ''Windows launch (powershell tool)'')
                     (\<lambda>_. ret (Some \<lparr>command = cmd, cleanup = None\<rparr>))))
        else if lowerApp = ''wt.exe'' \<or> lowerApp = ''wt'' then
          (let cmd = (case truthy toolCommand of
                        Some _ \<Rightarrow> ''start \"\" wt.exe new-tab cmd /K \"'' @ cdCommand @ tool @ ''\"''
                      | None \<Rightarrow> ''start \"\" wt.exe new-tab cmd /K \"'' @ cdCommand @ ''\"'')
           in bind (logger_log ''Windows launch (wt)'')
                (\<lambda>_. ret (Some \<lparr>command = cmd, cleanup = None\<rparr>)))
        else case truthy toolCommand of
          None \<Rightarrow>
            (let cmd = ''start \"\" \"'' @ app @ ''\"''
             in bind (logger_log ''Windows launch (generic simple)'')
                  (\<lambda>_. ret (Some \<lparr>command = cmd, cleanup = None\<rparr>)))
        | Some _ \<Rightarrow>
            (let cmd = ''start \"\" cmd.exe /K \"'' @ cdCommand @ tool @ ''\"''
             in bind (logger_log ''Windows launch (generic tool fallback)'')
                  (\<lambda>_. ret (Some \<lparr>command = cmd, cleanup = None\<rparr>))))"

definition buildUnixLaunch :: "string \<Rightarrow> string option \<Rightarrow> (LaunchCommand option, 'w) prog" where
  "buildUnixLaunch appName toolCommand =
     (let app = sanitizeTerminalApp appName in
      if app = [] then ret None
      else case truthy toolCommand of
        None \<Rightarrow>
          (let cmd = app
           in bind (logger_log ''Unix launch (simple)'')
                (\<lambda>_. ret (Some \<lparr>command = cmd, cleanup = None\<rparr>)))
      | Some t \<Rightarrow>
          (let shellCommand = ''cd \"$PWD\"; '' @ t @ ''; exec \"$SHELL\"'' in
           if str_includes app ''gnome-terminal'' then
             (let cmd = app @ '' -- bash -lc \"'' @ shellCommand @ ''\"''
              in bind (logger_log ''Unix launch (gnome-terminal)'')
                   (\<lambda>_. ret (Some \<lparr>command = cmd, cleanup = None\<rparr>)))
           else if str_includes app ''konsole'' then
             (let cmd = app @ '' -e bash -lc \"'' @ shellCommand @ ''\"''
              in bind (logger_log ''Unix launch (konsole)'')
                   (\<lambda>_. ret (Some \<lparr>command = cmd, cleanup = None\<rparr>)))
           else
             (let cmd = app @ '' -e bash -lc \"'' @ shellCommand @ ''\"''
              in bind (logger_log ''Unix launch (generic tool)'')
                   (\<lambda>_. ret (Some \<lparr>command = cmd, cleanup = None\<rparr>)))))"

definition buildLaunchCommand ::
  "'w node \<Rightarrow> Platform \<Rightarrow> string \<Rightarrow> string \<Rightarrow> string option
     \<Rightarrow> (LaunchCommand option, 'w) prog" where
  "buildLaunchCommand os p appName vaultPath toolCommand =
     (if \<not> isDesktopApp p then ret None
      else if isMacOS p then buildMacLaunch os appName vaultPath toolCommand
      else if isWin p then buildWindowsLaunch appName vaultPath toolCommand
      else buildUnixLaunch appName toolCommand)"


text \<open>The command string of a call's outcome, when the call returned a command.\<close>

definition command_of :: "(error + LaunchCommand option) \<times> 's \<Rightarrow> string option" where
  "command_of r = (case fst r of Inr (Some lc) \<Rightarrow> Some (command lc) | _ \<Rightarrow> None)"


section \<open>settings.ts\<close>

datatype DesktopPlatform = Win | Macos | Linux

text \<open>
  \<open>TerminalAppByPlatform\<close>: an object with at most the three keys \<open>win\<close>, \<open>macos\<close> and
  \<open>linux\<close>; an absent key is \<open>None\<close>.
\<close>

record TerminalAppByPlatform =
  win :: "string option"
  macos :: "string option"
  linux :: "string option"

record OpenInTerminalSettings =
  terminalApp :: TerminalAppByPlatform
  enableClaude :: bool
  enableCodex :: bool
  enableCursor :: bool
  enableGemini :: bool
  enableOpencode :: bool
  enableWslOnWindows :: bool

definition defaultTerminalApp :: "Platform \<Rightarrow> string" where
  "defaultTerminalApp p =
     (if \<not> isDesktopApp p then []
      else if isMacOS p then ''Terminal''
      else if isWin p then ''cmd.exe''
      else if isLinux p then ''x-terminal-emulator''
      else [])"

definition getCurrentDesktopPlatform :: "Platform \<Rightarrow> DesktopPlatform option" where
  "getCurrentDesktopPlatform p =
     (if \<not> isDesktopApp p then None
      else if isMacOS p then Some Macos
      else if isWin p then Some Win
      else if isLinux p then Some Linux
      else None)"

text \<open>The object literal \<open>{}\<close> at type \<open>TerminalAppByPlatform\<close>.\<close>

definition noTerminalApp :: TerminalAppByPlatform where
  "noTerminalApp = \<lparr>win = None, macos = None, linux = None\<rparr>"

text \<open>\<open>{ ...t, [platform]: v }\<close>, and \<open>t[platform]\<close>.\<close>

definition setSlot ::
  "DesktopPlatform \<Rightarrow> string \<Rightarrow> TerminalAppByPlatform \<Rightarrow> TerminalAppByPlatform" where
  "setSlot pf v t =
     (case pf of Win \<Rightarrow> t\<lparr>win := Some v\<rparr> | Macos \<Rightarrow> t\<lparr>macos := Some v\<rparr>
      | Linux \<Rightarrow> t\<lparr>linux := Some v\<rparr>)"

definition getSlot :: "DesktopPlatform \<Rightarrow> TerminalAppByPlatform \<Rightarrow> string option" where
  "getSlot pf t = (case pf of Win \<Rightarrow> win t | Macos \<Rightarrow> macos t | Linux \<Rightarrow> linux t)"

definition buildDefaultTerminalAppSetting :: "Platform \<Rightarrow> TerminalAppByPlatform" where
  "buildDefaultTerminalAppSetting p =
     (let platform = getCurrentDesktopPlatform p;
          app = defaultTerminalApp p
      in case platform of None \<Rightarrow> noTerminalApp | Some pf \<Rightarrow> setSlot pf app noTerminalApp)"

definition DEFAULT_SETTINGS :: "Platform \<Rightarrow> OpenInTerminalSettings" where
  "DEFAULT_SETTINGS p =
     \<lparr>terminalApp = buildDefaultTerminalAppSetting p,
      enableClaude = False, enableCodex = False, enableCursor = False,
      enableGemini = False, enableOpencode = False, enableWslOnWindows = False\<rparr>"

text \<open>
  A value of type \<open>unknown\<close>, as the persistence store can hand it to \<open>normalizeSettings\<close>:
  what \<open>JSON.parse\<close> produces, and \<open>undefined\<close>. Of a number the module reads only its type.
\<close>

datatype jsval =
    JUndefined
  | JNull
  | JBoolean bool
  | JNumber int
  | JString string
  | JArray "jsval list"
  | JObject "(string \<times> jsval) list"

text \<open>
  \<open>v.k\<close> for a value \<open>v\<close> that is an object, and a key \<open>k\<close> that is one of the names the
  module reads (\<open>terminalApp\<close>, the six flags, \<open>win\<close>, \<open>macos\<close>, \<open>linux\<close>): the own
  property of a plain object if there is one, else \<open>undefined\<close>. None of these names is an
  own property of an array or a property of a prototype.
\<close>

fun getProp :: "jsval \<Rightarrow> string \<Rightarrow> jsval" where
  "getProp (JObject kvs) k = (case map_of kvs k of Some v \<Rightarrow> v | None \<Rightarrow> JUndefined)"
| "getProp _ k = JUndefined"

text \<open>\<open>typeof value === 'object' && value !== null\<close>: objects and arrays.\<close>

fun isRecord :: "jsval \<Rightarrow> bool" where
  "isRecord (JObject _) = True"
| "isRecord (JArray _) = True"
| "isRecord _ = False"

definition normalizeTerminalAppSetting ::
  "Platform \<Rightarrow> jsval \<Rightarrow> TerminalAppByPlatform \<Rightarrow> TerminalAppByPlatform" where
  "normalizeTerminalAppSetting p v fallback =
     (let platform = getCurrentDesktopPlatform p in
      case v of
        JString s \<Rightarrow>
          (case platform of None \<Rightarrow> fallback
           | Some pf \<Rightarrow> setSlot pf (trim s) noTerminalApp)
      | _ \<Rightarrow>
          if isRecord v then
            (let next = noTerminalApp;
                 next = (case getProp v ''win'' of
                           JString s \<Rightarrow> next\<lparr>win := Some (trim s)\<rparr> | _ \<Rightarrow> next);
                 next = (case getProp v ''macos'' of
                           JString s \<Rightarrow> next\<lparr>macos := Some (trim s)\<rparr> | _ \<Rightarrow> next);
                 next = (case getProp v ''linux'' of
                           JString s \<Rightarrow> next\<lparr>linux := Some (trim s)\<rparr> | _ \<Rightarrow> next)
             in next)
          else fallback)"

definition readBoolean :: "jsval \<Rightarrow> bool \<Rightarrow> bool" where
  "readBoolean v fallback = (case v of JBoolean b \<Rightarrow> b | _ \<Rightarrow> fallback)"

definition normalizeSettings :: "Platform \<Rightarrow> jsval \<Rightarrow> OpenInTerminalSettings" where
  "normalizeSettings p stored =
     (let source = (if isRecord stored then stored else JObject []) in
      \<lparr>terminalApp =
         normalizeTerminalAppSetting p (getProp source ''terminalApp'')
           (terminalApp (DEFAULT_SETTINGS p)),
       enableClaude = readBoolean (getProp source ''enableClaude'') (enableClaude (DEFAULT_SETTINGS p)),
       enableCodex = readBoolean (getProp source ''enableCodex'') (enableCodex (DEFAULT_SETTINGS p)),
       enableCursor = readBoolean (getProp source ''enableCursor'') (enableCursor (DEFAULT_SETTINGS p)),
       enableGemini = readBoolean (getProp source ''enableGemini'') (enableGemini (DEFAULT_SETTINGS p)),
       enableOpencode =
         readBoolean (getProp source ''enableOpencode'') (enableOpencode (DEFAULT_SETTINGS p)),
       enableWslOnWindows =
         readBoolean (getProp source ''enableWslOnWindows'')
           (enableWslOnWindows (DEFAULT_SETTINGS p))\<rparr>)"

definition getCurrentTerminalApp :: "Platform \<Rightarrow> TerminalAppByPlatform \<Rightarrow> string" where
  "getCurrentTerminalApp p t =
     (case getCurrentDesktopPlatform p of
        None \<Rightarrow> []
      | Some pf \<Rightarrow> (case getSlot pf t of Some v \<Rightarrow> v | None \<Rightarrow> []))"

text \<open>
  A settings object as a JavaScript value, the way \<open>normalizeSettings\<close> receives its own
  result again: every flag is a boolean property, and \<open>terminalApp\<close> is an object that has
  exactly the keys that are present.
\<close>

definition slotToJs :: "string \<Rightarrow> string option \<Rightarrow> (string \<times> jsval) list" where
  "slotToJs k v = (case v of None \<Rightarrow> [] | Some s \<Rightarrow> [(k, JString s)])"

definition terminalAppToJs :: "TerminalAppByPlatform \<Rightarrow> jsval" where
  "terminalAppToJs t =
     JObject (slotToJs ''win'' (win t) @ slotToJs ''macos'' (macos t) @ slotToJs ''linux'' (linux t))"

definition settingsToJs :: "OpenInTerminalSettings \<Rightarrow> jsval" where
  "settingsToJs s =
     JObject
       [(''terminalApp'', terminalAppToJs (terminalApp s)),
        (''enableClaude'', JBoolean (enableClaude s)),
        (''enableCodex'', JBoolean (enableCodex s)),
        (''enableCursor'', JBoolean (enableCursor s)),
        (''enableGemini'', JBoolean (enableGemini s)),
        (''enableOpencode'', JBoolean (enableOpencode s)),
        (''enableWslOnWindows'', JBoolean (enableWslOnWindows s))]"


text \<open>Every slot that is present holds a string that trimming leaves as it is.\<close>

definition trimmedSlots :: "TerminalAppByPlatform \<Rightarrow> bool" where
  "trimmedSlots t =
     (map_option trim (win t) = win t \<and> map_option trim (macos t) = macos t
      \<and> map_option trim (linux t) = linux t)"


section \<open>main.ts\<close>

text \<open>The options object that \<open>composeLaunchCommand\<close> builds for the launcher.\<close>

record LaunchOptions =
  useWslOnWindows :: bool

text \<open>
  A JavaScript call with one argument more than the callee declares: the surplus argument is
  evaluated and dropped. \<open>buildLaunchCommand\<close> declares three parameters and reads no
  \<open>arguments\<close> object.
\<close>

definition call_with_surplus :: "'r \<Rightarrow> 'x \<Rightarrow> 'r" where
  "call_with_surplus call extra = call"

text \<open>
  \<open>composeLaunchCommand\<close> of the plugin class. \<open>adapter\<close> is \<open>Some basePath\<close> when the vault
  adapter is a \<open>FileSystemAdapter\<close>, and \<open>settings\<close> is \<open>this.settings\<close>.
\<close>

definition composeLaunchCommand ::
  "'w node \<Rightarrow> Platform \<Rightarrow> string option \<Rightarrow> OpenInTerminalSettings \<Rightarrow> string option
     \<Rightarrow> (LaunchCommand option, 'w) prog" where
  "composeLaunchCommand os p adapter settings toolCommand =
     (case adapter of
        None \<Rightarrow> ret None
      | Some vaultPath \<Rightarrow>
          (let app = getCurrentTerminalApp p (terminalApp settings) in
           bind (call_with_surplus (buildLaunchCommand os p app vaultPath toolCommand)
                   \<lparr>useWslOnWindows = enableWslOnWindows settings\<rparr>)
             (\<lambda>launchCommand.
                bind (logger_log ''Compose launch command'') (\<lambda>_. ret launchCommand))))"


section \<open>Concrete platforms and file systems\<close>

text \<open>The platforms the plugin can run on, as \<open>Platform\<close> reports them.\<close>

definition macPlatform :: Platform where
  "macPlatform = \<lparr>isDesktopApp = True, isMacOS = True, isWin = False, isLinux = False\<rparr>"

definition winPlatform :: Platform where
  "winPlatform = \<lparr>isDesktopApp = True, isMacOS = False, isWin = True, isLinux = False\<rparr>"

definition linuxPlatform :: Platform where
  "linuxPlatform = \<lparr>isDesktopApp = True, isMacOS = False, isWin = False, isLinux = True\<rparr>"

definition mobilePlatform :: Platform where
  "mobilePlatform = \<lparr>isDesktopApp = False, isMacOS = False, isWin = False, isLinux = False\<rparr>"

text \<open>A desktop on which \<open>Platform\<close> reports none of macOS, Windows and Linux.\<close>

definition otherDesktopPlatform :: Platform where
  "otherDesktopPlatform = \<lparr>isDesktopApp = True, isMacOS = False, isWin = False, isLinux = False\<rparr>"

text \<open>
  Two instances of the Node interface, for running the launcher on concrete inputs. The
  first is an in-memory file system in which every call succeeds: temporary directories get
  the suffix \<open>a1B2c3\<close>, \<open>rmSync\<close> removes a directory and the files below it and does
  nothing when the directory is gone. In the second every file system call throws.
\<close>

record memfs =
  mem_dirs :: "string list"
  mem_files :: "(string \<times> string \<times> nat) list"

definition mem_node :: "memfs node" where
  "mem_node =
     \<lparr>tmpdir = (\<lambda>w. ''/tmp''),
      join = (\<lambda>a b. a @ ''/'' @ b),
      mkdtempSync = (\<lambda>pfx w. (Inr (pfx @ ''a1B2c3''), w\<lparr>mem_dirs := (pfx @ ''a1B2c3'') # mem_dirs w\<rparr>)),
      writeFileSync = (\<lambda>f c m w. (None, w\<lparr>mem_files := (f, c, m) # mem_files w\<rparr>)),
      rmSync = (\<lambda>d w. (None,
        w\<lparr>mem_dirs := removeAll d (mem_dirs w),
          mem_files := filter (\<lambda>e. take (length d + 1) (fst e) \<noteq> d @ ''/'') (mem_files w)\<rparr>))\<rparr>"

definition failing_node :: "memfs node" where
  "failing_node =
     \<lparr>tmpdir = (\<lambda>w. ''/tmp''),
      join = (\<lambda>a b. a @ ''/'' @ b),
      mkdtempSync = (\<lambda>pfx w. (Inl (SystemError ''EACCES''), w)),
      writeFileSync = (\<lambda>f c m w. (Some (SystemError ''EACCES''), w)),
      rmSync = (\<lambda>d w. (Some (SystemError ''EPERM''), w))\<rparr>"

definition st0 :: "memfs state" where
  "st0 = \<lparr>world = \<lparr>mem_dirs = [''/tmp''], mem_files = []\<rparr>, logger_enabled = False, console = []\<rparr>"


section \<open>Auxiliary facts\<close>

text \<open>\<open>str_includes\<close> is the substring test, and \<open>escapeDoubleQuotes\<close> puts a backslash before a quote.\<close>

lemma str_includes_iff: "str_includes s pat \<longleftrightarrow> (\<exists>ps ss. s = ps @ pat @ ss)"
proof (induction s)
  case Nil
  then show ?case by auto
next
  case (Cons c cs)
  show ?case
  proof
    assume "str_includes (c # cs) pat"
    then consider "take (length pat) (c # cs) = pat" | "str_includes cs pat" by auto
    then show "\<exists>ps ss. c # cs = ps @ pat @ ss"
    proof cases
      case 1
      then have "c # cs = [] @ pat @ drop (length pat) (c # cs)"
        by (metis append_Nil append_take_drop_id)
      then show ?thesis by blast
    next
      case 2
      then obtain ps ss where "cs = ps @ pat @ ss" using Cons.IH by blast
      then have "c # cs = (c # ps) @ pat @ ss" by simp
      then show ?thesis by blast
    qed
  next
    assume "\<exists>ps ss. c # cs = ps @ pat @ ss"
    then obtain ps ss where e: "c # cs = ps @ pat @ ss" by blast
    show "str_includes (c # cs) pat"
    proof (cases ps)
      case Nil
      then have "take (length pat) (c # cs) = pat" using e by simp
      then show ?thesis by simp
    next
      case (Cons p ps')
      then have "cs = ps' @ pat @ ss" using e by simp
      then have "str_includes cs pat" using Cons.IH by blast
      then show ?thesis by simp
    qed
  qed
qed

lemma escapeDoubleQuotes_quote:
  "escapeDoubleQuotes ''a\"b'' = ''a'' @ [CHR 0x5C, CHR 0x22] @ ''b''"
  by (simp add: escapeDoubleQuotes_def replaceAll_def)


lemma truthy_Some_iff: "truthy v = Some t \<longleftrightarrow> v = Some t \<and> t \<noteq> []"
  by (auto simp: truthy_def split: option.splits if_splits)

lemma truthy_None_iff: "truthy v = None \<longleftrightarrow> v = None \<or> v = Some []"
  by (auto simp: truthy_def split: option.splits if_splits)

lemma replaceAll_same: "replaceAll c [c] s = s"
  by (induction s) (auto simp: replaceAll_def)

lemma log_ret: "bind (logger_log l) (\<lambda>_. ret x) st = (Inr x, snd (logger_log l st))"
  by (simp add: bind_def logger_log_def ret_def)

lemma world_logger_log: "world (snd (logger_log l st)) = world st"
  by (simp add: logger_log_def)

lemma buildWindowsLaunch_shape:
  assumes "trim app \<noteq> []"
  shows "\<exists>cmd l. buildWindowsLaunch app dir tool st
           = (Inr (Some \<lparr>command = cmd, cleanup = None\<rparr>), snd (logger_log l st))"
  using assms
  by (auto simp: buildWindowsLaunch_def sanitizeTerminalApp_def Let_def log_ret split: option.splits)

lemma buildUnixLaunch_shape:
  assumes "trim app \<noteq> []"
  shows "\<exists>cmd l. buildUnixLaunch app tool st
           = (Inr (Some \<lparr>command = cmd, cleanup = None\<rparr>), snd (logger_log l st))"
  using assms
  by (auto simp: buildUnixLaunch_def sanitizeTerminalApp_def Let_def log_ret split: option.splits)

lemma buildMacLaunch_simple:
  assumes "trim app \<noteq> []" "truthy tool = None"
  shows "buildMacLaunch os app dir tool st
           = (Inr (Some \<lparr>command = ''open -na \"'' @ escapeDoubleQuotes (trim app) @ ''\" \"''
                                      @ escapeDoubleQuotes dir @ ''\"'', cleanup = None\<rparr>),
              snd (logger_log ''macOS simple launch'' st))"
  using assms
  by (simp add: buildMacLaunch_def sanitizeTerminalApp_def Let_def log_ret)

lemma buildMacLaunch_tool:
  assumes "trim app \<noteq> []" "tool = Some t" "t \<noteq> []"
  shows "buildMacLaunch os app dir tool st =
     (case mkdtempSync os (join os (tmpdir os (world st)) ''open-in-terminal-'') (world st) of
        (Inl e, w1) \<Rightarrow> (Inl e, st\<lparr>world := w1\<rparr>)
      | (Inr d, w1) \<Rightarrow>
          (case writeFileSync os (join os d ''launch.command'')
                  (''#!/bin/bash\<newline>cd \"'' @ escapeDoubleQuotes dir @ ''\"\<newline>'' @ t
                     @ ''\<newline>exec \"$SHELL\"'') 493 w1 of
             (Some e, w2) \<Rightarrow>
               (Inl e, (snd (logger_log ''Creating temp script'' (st\<lparr>world := w1\<rparr>)))\<lparr>world := w2\<rparr>)
           | (None, w2) \<Rightarrow>
               (Inr (Some \<lparr>command = ''open -na \"'' @ escapeDoubleQuotes (trim app) @ ''\" \"''
                                        @ join os d ''launch.command'' @ ''\"'',
                           cleanup = Some (RemoveTempDir d)\<rparr>),
                snd (logger_log ''macOS script launch''
                  ((snd (logger_log ''Creating temp script'' (st\<lparr>world := w1\<rparr>)))\<lparr>world := w2\<rparr>)))))"
proof -
  have tr: "truthy tool = Some t" using assms by (simp add: truthy_Some_iff)
  show ?thesis
    using assms(1) tr
    by (simp add: buildMacLaunch_def sanitizeTerminalApp_def Let_def ensureTempScript_def
          bind_def ret_def fs_mkdtempSync_def fs_writeFileSync_def logger_log_def
        split: prod.splits sum.splits option.splits)
qed

lemma run_cleanup_eq:
  "run_cleanup os (RemoveTempDir d) st =
     (case rmSync os d (world st) of
        (None, w) \<Rightarrow> (Inr (), snd (logger_log ''Cleaned temp script'' (st\<lparr>world := w\<rparr>)))
      | (Some e, w) \<Rightarrow>
          (Inr (), st\<lparr>world := w,
             console := console st @ [Warn ''[open-in-terminal] Failed to remove temp script'']\<rparr>))"
  by (simp add: run_cleanup_def try_catch_def bind_def fs_rmSync_def logger_log_def console_warn_def
      split: prod.splits option.splits)

lemma buildLaunchCommand_null:
  assumes "\<not> isDesktopApp p \<or> trim app = []"
  shows "buildLaunchCommand os p app dir tool st = (Inr None, st)"
  using assms
  by (auto simp: buildLaunchCommand_def buildMacLaunch_def buildWindowsLaunch_def
        buildUnixLaunch_def sanitizeTerminalApp_def ret_def)

lemma buildMacLaunch_not_null:
  assumes "trim app \<noteq> []"
  shows "fst (buildMacLaunch os app dir tool st) \<noteq> Inr None"
proof (cases "truthy tool")
  case None
  then show ?thesis using assms by (simp add: buildMacLaunch_simple)
next
  case (Some t)
  then have "tool = Some t" "t \<noteq> []" by (simp_all add: truthy_Some_iff)
  then show ?thesis
    using assms by (simp add: buildMacLaunch_tool split: prod.splits sum.splits option.splits)
qed

lemma buildLaunchCommand_not_null:
  assumes "isDesktopApp p" "trim app \<noteq> []"
  shows "fst (buildLaunchCommand os p app dir tool st) \<noteq> Inr None"
proof -
  have w: "fst (buildWindowsLaunch app dir tool st) \<noteq> Inr None"
    using buildWindowsLaunch_shape[OF assms(2), of dir tool st] by auto
  have u: "fst (buildUnixLaunch app tool st) \<noteq> Inr None"
    using buildUnixLaunch_shape[OF assms(2), of tool st] by auto
  show ?thesis
    using assms w u buildMacLaunch_not_null[OF assms(2), of os dir tool st]
    by (simp add: buildLaunchCommand_def)
qed

lemma trim_blank: "trim [CHR '' '', CHR 0x09, CHR 0x0A] = []"
  by (simp add: trim_def isWhiteSpace_def)

lemma trim_Terminal: "trim ''Terminal'' = ''Terminal''"
  by (simp add: trim_def isWhiteSpace_def)


section \<open>The launch command\<close>

text \<open>
  Claim C2. \<open>buildLaunchCommand\<close> returns \<open>null\<close> if and only if the platform is not a
  desktop platform or the terminal application name is empty after trimming. In these cases,
  on every platform and whatever the tool command and the working directory are, the call
  returns \<open>null\<close> as a value: nothing is thrown, and the state is left as it was.
\<close>

theorem launch_null_iff:
  "(fst (buildLaunchCommand os p app dir tool st) = Inr None
      \<longleftrightarrow> \<not> isDesktopApp p \<or> trim app = [])
   \<and> (\<not> isDesktopApp p \<or> trim app = []
      \<longrightarrow> buildLaunchCommand os p app dir tool st = (Inr None, st))"
  using buildLaunchCommand_null[of p app os dir tool st]
    buildLaunchCommand_not_null[of p app os dir tool st]
  by auto

theorem launch_null_iff_witness:
  "buildLaunchCommand mem_node macPlatform [CHR '' '', CHR 0x09, CHR 0x0A] ''/vault''
       (Some ''claude'') st0 = (Inr None, st0)
   \<and> buildLaunchCommand mem_node mobilePlatform ''Terminal'' ''/vault'' None st0 = (Inr None, st0)
   \<and> fst (buildLaunchCommand mem_node macPlatform ''Terminal'' ''/vault'' None st0) \<noteq> Inr None"
  using launch_null_iff[of mem_node macPlatform "[CHR '' '', CHR 0x09, CHR 0x0A]" "''/vault''"
          "Some ''claude''" st0]
    launch_null_iff[of mem_node mobilePlatform "''Terminal''" "''/vault''" None st0]
    launch_null_iff[of mem_node macPlatform "''Terminal''" "''/vault''" None st0]
  by (simp add: trim_blank trim_Terminal macPlatform_def mobilePlatform_def)


lemma escapeDoubleQuotes_Terminal: "escapeDoubleQuotes ''Terminal'' = ''Terminal''"
  by (simp add: escapeDoubleQuotes_def replaceAll_def)

lemma escapeDoubleQuotes_vault: "escapeDoubleQuotes ''/Users/a/vault'' = ''/Users/a/vault''"
  by (simp add: escapeDoubleQuotes_def replaceAll_def)

text \<open>
  Claim C3 says that \<open>buildLaunchCommand\<close> without a tool command returns a command on
  all platform categories. The category "not a desktop" is one of them, and there the call
  returns \<open>null\<close>, also for the non-empty application name \<open>Terminal\<close>.
\<close>

theorem simple_launch_non_desktop_counterexample:
  "trim ''Terminal'' \<noteq> []
   \<and> buildLaunchCommand mem_node mobilePlatform ''Terminal'' ''/Users/a/vault'' None st0
       = (Inr None, st0)"
  by (simp add: trim_Terminal buildLaunchCommand_null mobilePlatform_def)

text \<open>
  Claim C3, amended to the desktop platforms. On every desktop platform and for every
  application name that is non-empty after trimming, \<open>buildLaunchCommand\<close> without a tool
  command (\<open>undefined\<close>, or the empty string, which the code treats alike) returns a
  command that carries no cleanup, and leaves the file system as it was, whatever the Node
  functions would do: no temporary script is made. On macOS, application \<open>Terminal\<close> and
  directory \<open>/Users/a/vault\<close> give the command \<open>open -na "Terminal" "/Users/a/vault"\<close>.
\<close>

theorem simple_launch_desktop:
  assumes "isDesktopApp p" and "trim app \<noteq> []" and "truthy tool = None"
  shows "(\<exists>lc st'. buildLaunchCommand os p app dir tool st = (Inr (Some lc), st')
            \<and> cleanup lc = None \<and> world st' = world st)
         \<and> (isMacOS p \<longrightarrow>
              fst (buildLaunchCommand os p ''Terminal'' ''/Users/a/vault'' None st)
                = Inr (Some \<lparr>command = ''open -na \"Terminal\" \"/Users/a/vault\"'',
                              cleanup = None\<rparr>))"
proof
  show "\<exists>lc st'. buildLaunchCommand os p app dir tool st = (Inr (Some lc), st')
            \<and> cleanup lc = None \<and> world st' = world st"
  proof (cases "isMacOS p")
    case True
    then show ?thesis
      using assms
      by (simp add: buildLaunchCommand_def buildMacLaunch_simple world_logger_log)
  next
    case False
    show ?thesis
    proof (cases "isWin p")
      case True
      obtain cmd l where "buildWindowsLaunch app dir tool st
           = (Inr (Some \<lparr>command = cmd, cleanup = None\<rparr>), snd (logger_log l st))"
        using buildWindowsLaunch_shape[OF assms(2)] by blast
      then show ?thesis
        using assms(1) \<open>\<not> isMacOS p\<close> True
        by (simp add: buildLaunchCommand_def world_logger_log)
    next
      case False
      obtain cmd l where "buildUnixLaunch app tool st
           = (Inr (Some \<lparr>command = cmd, cleanup = None\<rparr>), snd (logger_log l st))"
        using buildUnixLaunch_shape[OF assms(2)] by blast
      then show ?thesis
        using assms(1) \<open>\<not> isMacOS p\<close> False
        by (simp add: buildLaunchCommand_def world_logger_log)
    qed
  qed
next
  have "truthy None = None" by (simp add: truthy_def)
  then show "isMacOS p \<longrightarrow>
              fst (buildLaunchCommand os p ''Terminal'' ''/Users/a/vault'' None st)
                = Inr (Some \<lparr>command = ''open -na \"Terminal\" \"/Users/a/vault\"'',
                              cleanup = None\<rparr>)"
    using assms(1)
    by (simp add: buildLaunchCommand_def buildMacLaunch_simple trim_Terminal
          escapeDoubleQuotes_Terminal escapeDoubleQuotes_vault)
qed

lemma trim_xterm: "trim ''xterm'' = ''xterm''"
  by (simp add: trim_def isWhiteSpace_def)

theorem simple_launch_desktop_witness:
  "buildLaunchCommand mem_node macPlatform ''Terminal'' ''/Users/a/vault'' None st0
     = (Inr (Some \<lparr>command = ''open -na \"Terminal\" \"/Users/a/vault\"'', cleanup = None\<rparr>), st0)
   \<and> buildLaunchCommand mem_node linuxPlatform ''xterm'' ''/Users/a/vault'' None st0
     = (Inr (Some \<lparr>command = ''xterm'', cleanup = None\<rparr>), st0)"
proof -
  have t: "truthy None = None" by (simp add: truthy_def)
  have d: "isDesktopApp macPlatform" "isMacOS macPlatform" by (simp_all add: macPlatform_def)
  have n: "trim ''Terminal'' \<noteq> []" by (simp add: trim_Terminal)
  have s: "snd (buildLaunchCommand mem_node macPlatform ''Terminal'' ''/Users/a/vault'' None st0) = st0"
    by (simp add: buildLaunchCommand_def buildMacLaunch_simple trim_Terminal t d logger_log_def st0_def)
  have u: "buildLaunchCommand mem_node linuxPlatform ''xterm'' ''/Users/a/vault'' None st0
     = (Inr (Some \<lparr>command = ''xterm'', cleanup = None\<rparr>), st0)"
    by (simp add: buildLaunchCommand_def buildUnixLaunch_def sanitizeTerminalApp_def trim_xterm t
          linuxPlatform_def log_ret logger_log_def st0_def)
  from simple_launch_desktop[OF d(1) n t, of mem_node "''/Users/a/vault''" st0] d(2)
  have "fst (buildLaunchCommand mem_node macPlatform ''Terminal'' ''/Users/a/vault'' None st0)
          = Inr (Some \<lparr>command = ''open -na \"Terminal\" \"/Users/a/vault\"'', cleanup = None\<rparr>)"
    by blast
  with s u show ?thesis by (simp add: prod_eq_iff)
qed

text \<open>
  Claim C10. Only the macOS path with a tool command produces a cleanup. On every platform
  that is not macOS (the Windows and the Linux/BSD paths, with or without a tool command) the
  file system is left as it was and a returned command carries no cleanup; and a returned
  command that carries a cleanup comes from a desktop macOS platform with a tool command.
\<close>

theorem cleanup_only_mac_tool:
  "(\<not> isMacOS p \<longrightarrow>
       world (snd (buildLaunchCommand os p app dir tool st)) = world st
       \<and> (\<forall>lc. fst (buildLaunchCommand os p app dir tool st) = Inr (Some lc) \<longrightarrow> cleanup lc = None))
   \<and> (\<forall>lc. fst (buildLaunchCommand os p app dir tool st) = Inr (Some lc) \<and> cleanup lc \<noteq> None
         \<longrightarrow> isDesktopApp p \<and> isMacOS p \<and> truthy tool \<noteq> None)"
proof -
  have nonmac: "world (snd (buildLaunchCommand os p app dir tool st)) = world st
       \<and> (\<forall>lc. fst (buildLaunchCommand os p app dir tool st) = Inr (Some lc) \<longrightarrow> cleanup lc = None)"
    if nm: "\<not> isMacOS p"
  proof (cases "isDesktopApp p \<and> trim app \<noteq> []")
    case False
    then show ?thesis using buildLaunchCommand_null[of p app os dir tool st] by auto
  next
    case True
    then have a: "trim app \<noteq> []" and dsk: "isDesktopApp p" by simp_all
    obtain cmd l where w: "buildWindowsLaunch app dir tool st
           = (Inr (Some \<lparr>command = cmd, cleanup = None\<rparr>), snd (logger_log l st))"
      using buildWindowsLaunch_shape[OF a] by blast
    obtain cmd' l' where u: "buildUnixLaunch app tool st
           = (Inr (Some \<lparr>command = cmd', cleanup = None\<rparr>), snd (logger_log l' st))"
      using buildUnixLaunch_shape[OF a] by blast
    show ?thesis
      using nm dsk w u by (auto simp: buildLaunchCommand_def world_logger_log)
  qed
  have mac: "cleanup lc = None"
    if "fst (buildLaunchCommand os p app dir tool st) = Inr (Some lc)" "isMacOS p" "truthy tool = None" for lc
  proof (cases "isDesktopApp p \<and> trim app \<noteq> []")
    case False
    then show ?thesis using that buildLaunchCommand_null[of p app os dir tool st] by auto
  next
    case True
    then show ?thesis
      using that by (auto simp: buildLaunchCommand_def buildMacLaunch_simple)
  qed
  have dsk: "isDesktopApp p" if "fst (buildLaunchCommand os p app dir tool st) = Inr (Some lc)" for lc
    using that buildLaunchCommand_null[of p app os dir tool st] by (cases "isDesktopApp p") auto
  from nonmac mac dsk show ?thesis by (intro conjI allI impI) auto
qed

lemma trim_cmd_exe: "trim ''cmd.exe'' = ''cmd.exe''"
  by (simp add: trim_def isWhiteSpace_def)

lemma toLowerCase_cmd_exe: "toLowerCase ''cmd.exe'' = ''cmd.exe''"
  by (simp add: toLowerCase_def toLowerChar_def)

lemma toLowerCase_CMD: "toLowerCase ''CMD.EXE'' = ''cmd.exe''"
  by code_simp

lemma truthy_claude: "truthy (Some ''claude'') = Some ''claude''"
  by (simp add: truthy_def)

lemma win_cmd_claude:
  "buildLaunchCommand os winPlatform ''cmd.exe'' ''C:/vault'' (Some ''claude'') st
     = (Inr (Some \<lparr>command = ''start \"\" cmd.exe /K \"cd /d \"C:/vault\" && claude\"'',
                    cleanup = None\<rparr>),
        snd (logger_log ''Windows launch (cmd.exe)'' st))"
  by (simp add: buildLaunchCommand_def winPlatform_def buildWindowsLaunch_def
        sanitizeTerminalApp_def trim_cmd_exe toLowerCase_cmd_exe truthy_claude replaceAll_same
        log_ret)

theorem cleanup_only_mac_tool_witness:
  "world (snd (buildLaunchCommand mem_node winPlatform ''cmd.exe'' ''C:/vault'' (Some ''claude'') st0))
     = world st0
   \<and> fst (buildLaunchCommand mem_node winPlatform ''cmd.exe'' ''C:/vault'' (Some ''claude'') st0)
     = Inr (Some \<lparr>command = ''start \"\" cmd.exe /K \"cd /d \"C:/vault\" && claude\"'',
                   cleanup = None\<rparr>)"
proof -
  have "\<not> isMacOS winPlatform" by (simp add: winPlatform_def)
  with cleanup_only_mac_tool[of winPlatform mem_node "''cmd.exe''" "''C:/vault''"
         "Some ''claude''" st0]
  have "world (snd (buildLaunchCommand mem_node winPlatform ''cmd.exe'' ''C:/vault''
          (Some ''claude'') st0)) = world st0"
    by blast
  then show ?thesis by (simp add: win_cmd_claude)
qed

text \<open>
  Claim C4. On macOS, with an application name that is non-empty after trimming and a tool
  command \<open>t\<close> that is a non-empty string. Write \<open>esc s\<close> for \<open>s\<close> with a backslash put
  before every double quote. When \<open>mkdtempSync\<close> creates the directory \<open>d\<close> and
  \<open>writeFileSync\<close> writes the file \<open>launch.command\<close> in \<open>d\<close> with mode \<open>0o755\<close> and the
  content "\<open>#!/bin/bash\<close>, \<open>cd "<esc dir>"\<close>, the tool command, \<open>exec "$SHELL"\<close>", joined by
  newlines, the call returns the command \<open>open -na "<esc app>" "<script path>"\<close> with the
  cleanup for \<open>d\<close>, in the world that the write left. Whenever the call returns at all, it
  returns such a command with the cleanup for the directory that \<open>mkdtempSync\<close> created,
  never \<open>null\<close>. Running the cleanup for \<open>d\<close> leaves the world that \<open>rmSync\<close> of \<open>d\<close>
  (recursive, forced) leaves.
\<close>

theorem mac_tool_launch:
  assumes "isDesktopApp p" and "isMacOS p" and "trim app \<noteq> []"
    and "tool = Some t" and "t \<noteq> []"
  shows
    "let esc = (\<lambda>s. concat (map (\<lambda>c. if c = CHR 0x22 then [CHR 0x5C, CHR 0x22] else [c]) s))
     in
     (\<forall>d w1 w2.
        mkdtempSync os (join os (tmpdir os (world st)) ''open-in-terminal-'') (world st)
          = (Inr d, w1)
        \<and> writeFileSync os (join os d ''launch.command'')
            (''#!/bin/bash\<newline>cd \"'' @ esc dir @ ''\"\<newline>'' @ t
               @ ''\<newline>exec \"$SHELL\"'') 493 w1 = (None, w2)
        \<longrightarrow> (\<exists>st'. buildLaunchCommand os p app dir tool st
                    = (Inr (Some \<lparr>command = ''open -na \"'' @ esc (trim app)
                                      @ ''\" \"'' @ join os d ''launch.command'' @ ''\"'',
                                   cleanup = Some (RemoveTempDir d)\<rparr>), st')
                  \<and> world st' = w2))
     \<and> (\<forall>r st'. buildLaunchCommand os p app dir tool st = (Inr r, st')
          \<longrightarrow> (\<exists>d w1.
                 mkdtempSync os (join os (tmpdir os (world st)) ''open-in-terminal-'') (world st)
                   = (Inr d, w1)
                 \<and> r = Some \<lparr>command = ''open -na \"'' @ esc (trim app)
                                  @ ''\" \"'' @ join os d ''launch.command'' @ ''\"'',
                               cleanup = Some (RemoveTempDir d)\<rparr>))
     \<and> (\<forall>d s. world (snd (run_cleanup os (RemoveTempDir d) s)) = snd (rmSync os d (world s)))"
proof -
  have eq: "buildLaunchCommand os p app dir tool st = buildMacLaunch os app dir tool st"
    using assms(1,2) by (simp add: buildLaunchCommand_def)
  have esc: "concat (map (\<lambda>c. if c = CHR 0x22 then [CHR 0x5C, CHR 0x22] else [c]) s)
               = escapeDoubleQuotes s" for s
    by (simp add: escapeDoubleQuotes_def replaceAll_def)
  have c: "world (snd (run_cleanup os (RemoveTempDir d) s)) = snd (rmSync os d (world s))" for d s
    by (simp add: run_cleanup_eq world_logger_log split: prod.splits option.splits)
  show ?thesis
    unfolding Let_def esc eq buildMacLaunch_tool[OF assms(3,4,5)]
    using c
    by (auto simp: world_logger_log split: prod.splits sum.splits option.splits)
qed

text \<open>
  Claim C9. The cleanup of a temporary script never throws, whatever the file system does:
  it returns normally on every state, so also when the directory is already gone, and it
  returns normally when it is run a second time on the state the first run left. When
  \<open>rmSync\<close> throws, the error is swallowed and the one thing added to the console is a
  warning.
\<close>

theorem cleanup_never_throws:
  "fst (run_cleanup os c st) = Inr ()
   \<and> fst (run_cleanup os c (snd (run_cleanup os c st))) = Inr ()
   \<and> (\<forall>d e w. c = RemoveTempDir d \<and> rmSync os d (world st) = (Some e, w)
        \<longrightarrow> snd (run_cleanup os c st)
              = st\<lparr>world := w,
                   console := console st @ [Warn ''[open-in-terminal] Failed to remove temp script'']\<rparr>)"
proof -
  have r: "fst (run_cleanup os c s) = Inr ()" for s
    by (cases c) (simp add: run_cleanup_eq split: prod.splits option.splits)
  show ?thesis
    using r by (auto simp: run_cleanup_eq)
qed

lemma trim_iTerm: "trim ''iTerm'' = ''iTerm''"
  by (simp add: trim_def isWhiteSpace_def)

lemma escapeDoubleQuotes_iTerm: "escapeDoubleQuotes ''iTerm'' = ''iTerm''"
  by (simp add: escapeDoubleQuotes_def replaceAll_def)

lemma escapeDoubleQuotes_slash_vault: "escapeDoubleQuotes ''/vault'' = ''/vault''"
  by (simp add: escapeDoubleQuotes_def replaceAll_def)

theorem mac_tool_launch_witness:
  "buildLaunchCommand mem_node macPlatform ''iTerm'' ''/vault'' (Some ''claude'') st0
     = (Inr (Some \<lparr>command = ''open -na \"iTerm\" \"/tmp/open-in-terminal-a1B2c3/launch.command\"'',
                    cleanup = Some (RemoveTempDir ''/tmp/open-in-terminal-a1B2c3'')\<rparr>),
        st0\<lparr>world :=
          \<lparr>mem_dirs = [''/tmp/open-in-terminal-a1B2c3'', ''/tmp''],
           mem_files = [(''/tmp/open-in-terminal-a1B2c3/launch.command'',
             ''#!/bin/bash\<newline>cd \"/vault\"\<newline>claude\<newline>exec \"$SHELL\"'', 493)]\<rparr>\<rparr>)
   \<and> world (snd (run_cleanup mem_node (RemoveTempDir ''/tmp/open-in-terminal-a1B2c3'')
         (st0\<lparr>world :=
           \<lparr>mem_dirs = [''/tmp/open-in-terminal-a1B2c3'', ''/tmp''],
            mem_files = [(''/tmp/open-in-terminal-a1B2c3/launch.command'',
              ''#!/bin/bash\<newline>cd \"/vault\"\<newline>claude\<newline>exec \"$SHELL\"'', 493)]\<rparr>\<rparr>)))
     = \<lparr>mem_dirs = [''/tmp''], mem_files = []\<rparr>
   \<and> buildLaunchCommand mem_node macPlatform ''my \"Term\"'' ''/my \"vault\"'' (Some ''claude'') st0
     = (Inr (Some \<lparr>command = ''open -na \"my '' @ [CHR 0x5C] @ ''\"Term'' @ [CHR 0x5C]
                               @ ''\"\" \"/tmp/open-in-terminal-a1B2c3/launch.command\"'',
                    cleanup = Some (RemoveTempDir ''/tmp/open-in-terminal-a1B2c3'')\<rparr>),
        st0\<lparr>world :=
          \<lparr>mem_dirs = [''/tmp/open-in-terminal-a1B2c3'', ''/tmp''],
           mem_files = [(''/tmp/open-in-terminal-a1B2c3/launch.command'',
             ''#!/bin/bash\<newline>cd \"/my '' @ [CHR 0x5C] @ ''\"vault'' @ [CHR 0x5C]
               @ ''\"\"\<newline>claude\<newline>exec \"$SHELL\"'', 493)]\<rparr>\<rparr>)"
proof -
  let ?d = "''/tmp/open-in-terminal-a1B2c3''"
  let ?w1 = "\<lparr>mem_dirs = [?d, ''/tmp''], mem_files = []\<rparr>"
  let ?w2 = "\<lparr>mem_dirs = [?d, ''/tmp''],
           mem_files = [(''/tmp/open-in-terminal-a1B2c3/launch.command'',
             ''#!/bin/bash\<newline>cd \"/vault\"\<newline>claude\<newline>exec \"$SHELL\"'', 493)]\<rparr>"
  let ?w3 = "\<lparr>mem_dirs = [?d, ''/tmp''],
           mem_files = [(''/tmp/open-in-terminal-a1B2c3/launch.command'',
             ''#!/bin/bash\<newline>cd \"/my '' @ [CHR 0x5C] @ ''\"vault'' @ [CHR 0x5C]
               @ ''\"\"\<newline>claude\<newline>exec \"$SHELL\"'', 493)]\<rparr>"
  have p: "isDesktopApp macPlatform" "isMacOS macPlatform" by (simp_all add: macPlatform_def)
  have a: "trim ''iTerm'' \<noteq> []" by (simp add: trim_iTerm)
  have tq: "trim ''my \"Term\"'' = ''my \"Term\"''" by (simp add: trim_def isWhiteSpace_def)
  have aq: "trim ''my \"Term\"'' \<noteq> []" by (simp add: tq)
  have t: "''claude'' \<noteq> []" by simp
  have m: "mkdtempSync mem_node (join mem_node (tmpdir mem_node (world st0)) ''open-in-terminal-'')
             (world st0) = (Inr ?d, ?w1)"
    by (simp add: mem_node_def st0_def)
  have quiet: "logger_enabled (snd (buildLaunchCommand mem_node macPlatform ap dr
              (Some ''claude'') st0)) = False
         \<and> console (snd (buildLaunchCommand mem_node macPlatform ap dr
              (Some ''claude'') st0)) = []" if "trim ap \<noteq> []" for ap dr
    using p that
    by (simp add: buildLaunchCommand_def buildMacLaunch_tool logger_log_def st0_def
          split: prod.splits sum.splits option.splits)
  note inst = mac_tool_launch[OF p a refl t, of mem_node st0 "''/vault''", unfolded Let_def]
  have w: "writeFileSync mem_node (join mem_node ?d ''launch.command'')
            (''#!/bin/bash\<newline>cd \"''
               @ concat (map (\<lambda>c. if c = CHR 0x22 then [CHR 0x5C, CHR 0x22] else [c]) ''/vault'')
               @ ''\"\<newline>'' @ ''claude'' @ ''\<newline>exec \"$SHELL\"'') 493 ?w1 = (None, ?w2)"
    by (simp add: mem_node_def)
  from inst m w obtain st' where
    r: "buildLaunchCommand mem_node macPlatform ''iTerm'' ''/vault'' (Some ''claude'') st0
          = (Inr (Some \<lparr>command = ''open -na \"''
                            @ concat (map (\<lambda>c. if c = CHR 0x22 then [CHR 0x5C, CHR 0x22] else [c])
                                (trim ''iTerm''))
                            @ ''\" \"'' @ join mem_node ?d ''launch.command'' @ ''\"'',
                         cleanup = Some (RemoveTempDir ?d)\<rparr>), st')"
    and ws: "world st' = ?w2"
    by blast
  have st': "st' = st0\<lparr>world := ?w2\<rparr>"
    using r ws quiet[OF a, of "''/vault''"] by (cases st') (simp add: st0_def)
  have c: "world (snd (run_cleanup mem_node (RemoveTempDir ?d) (st0\<lparr>world := ?w2\<rparr>)))
             = snd (rmSync mem_node ?d ?w2)"
    using inst by simp
  have rm: "snd (rmSync mem_node ?d ?w2) = \<lparr>mem_dirs = [''/tmp''], mem_files = []\<rparr>"
    by (simp add: mem_node_def)
  have 1: "buildLaunchCommand mem_node macPlatform ''iTerm'' ''/vault'' (Some ''claude'') st0
     = (Inr (Some \<lparr>command = ''open -na \"iTerm\" \"/tmp/open-in-terminal-a1B2c3/launch.command\"'',
                    cleanup = Some (RemoveTempDir ?d)\<rparr>), st0\<lparr>world := ?w2\<rparr>)"
    using r st' by (simp add: trim_iTerm mem_node_def)
  have 2: "world (snd (run_cleanup mem_node (RemoveTempDir ?d) (st0\<lparr>world := ?w2\<rparr>)))
     = \<lparr>mem_dirs = [''/tmp''], mem_files = []\<rparr>"
    using c rm by simp
  note instq = mac_tool_launch[OF p aq refl t, of mem_node st0 "''/my \"vault\"''",
                 unfolded Let_def]
  have wq: "writeFileSync mem_node (join mem_node ?d ''launch.command'')
            (''#!/bin/bash\<newline>cd \"''
               @ concat (map (\<lambda>c. if c = CHR 0x22 then [CHR 0x5C, CHR 0x22] else [c])
                   ''/my \"vault\"'')
               @ ''\"\<newline>'' @ ''claude'' @ ''\<newline>exec \"$SHELL\"'') 493 ?w1 = (None, ?w3)"
    by (simp add: mem_node_def)
  from instq m wq obtain st'' where
    rq: "buildLaunchCommand mem_node macPlatform ''my \"Term\"'' ''/my \"vault\"''
           (Some ''claude'') st0
          = (Inr (Some \<lparr>command = ''open -na \"''
                            @ concat (map (\<lambda>c. if c = CHR 0x22 then [CHR 0x5C, CHR 0x22] else [c])
                                (trim ''my \"Term\"''))
                            @ ''\" \"'' @ join mem_node ?d ''launch.command'' @ ''\"'',
                         cleanup = Some (RemoveTempDir ?d)\<rparr>), st'')"
    and wsq: "world st'' = ?w3"
    by blast
  have st'': "st'' = st0\<lparr>world := ?w3\<rparr>"
    using rq wsq quiet[OF aq, of "''/my \"vault\"''"] by (cases st'') (simp add: st0_def)
  have 3: "buildLaunchCommand mem_node macPlatform ''my \"Term\"'' ''/my \"vault\"''
             (Some ''claude'') st0
     = (Inr (Some \<lparr>command = ''open -na \"my '' @ [CHR 0x5C] @ ''\"Term'' @ [CHR 0x5C]
                               @ ''\"\" \"/tmp/open-in-terminal-a1B2c3/launch.command\"'',
                    cleanup = Some (RemoveTempDir ?d)\<rparr>), st0\<lparr>world := ?w3\<rparr>)"
    using rq st'' by (simp add: tq mem_node_def)
  show ?thesis using 1 2 3 by blast
qed

theorem cleanup_never_throws_witness:
  "run_cleanup failing_node (RemoveTempDir ''/tmp/open-in-terminal-a1B2c3'') st0
     = (Inr (), st0\<lparr>console := [Warn ''[open-in-terminal] Failed to remove temp script'']\<rparr>)
   \<and> run_cleanup mem_node (RemoveTempDir ''/tmp/open-in-terminal-a1B2c3'') st0 = (Inr (), st0)"
proof -
  let ?c = "RemoveTempDir ''/tmp/open-in-terminal-a1B2c3''"
  have f: "rmSync failing_node ''/tmp/open-in-terminal-a1B2c3'' (world st0)
             = (Some (SystemError ''EPERM''), world st0)"
    by (simp add: failing_node_def)
  from cleanup_never_throws[of failing_node ?c st0] f
  have 1: "fst (run_cleanup failing_node ?c st0) = Inr ()"
    and 2: "snd (run_cleanup failing_node ?c st0)
          = st0\<lparr>world := world st0,
                console := console st0 @ [Warn ''[open-in-terminal] Failed to remove temp script'']\<rparr>"
    by blast+
  from cleanup_never_throws[of mem_node ?c st0]
  have 3: "fst (run_cleanup mem_node ?c st0) = Inr ()" by blast
  have 4: "snd (run_cleanup mem_node ?c st0) = st0"
    by (simp add: run_cleanup_eq mem_node_def st0_def logger_log_def)
  show ?thesis
    using 1 2 3 4 by (simp add: prod_eq_iff st0_def)
qed


lemma buildWindowsLaunch_command:
  assumes "trim app \<noteq> []"
  shows "command_of (buildWindowsLaunch app dir tool st) =
     Some (let a = toLowerCase (trim app); cd = ''cd /d \"'' @ dir @ ''\"'' in
       if a = ''cmd.exe'' \<or> a = ''cmd'' then
         (case truthy tool of
            None \<Rightarrow> ''start \"\" cmd.exe /K \"'' @ cd @ ''\"''
          | Some t \<Rightarrow> ''start \"\" cmd.exe /K \"'' @ cd @ '' && '' @ t @ ''\"'')
       else if a = ''powershell'' \<or> a = ''powershell.exe'' then
         (case truthy tool of
            None \<Rightarrow> ''start \"\" powershell -NoExit -Command \"Set-Location '' @ [CHR 0x27]
                      @ replaceAll (CHR 0x27) [CHR 0x27, CHR 0x27] dir @ [CHR 0x27] @ '';\"''
          | Some t \<Rightarrow> ''start \"\" powershell -NoExit -Command \"Set-Location '' @ [CHR 0x27]
                      @ replaceAll (CHR 0x27) [CHR 0x27, CHR 0x27] dir @ [CHR 0x27] @ ''; '' @ t @ ''\"'')
       else if a = ''wt.exe'' \<or> a = ''wt'' then
         (case truthy tool of
            None \<Rightarrow> ''start \"\" wt.exe new-tab cmd /K \"'' @ cd @ ''\"''
          | Some t \<Rightarrow> ''start \"\" wt.exe new-tab cmd /K \"'' @ cd @ '' && '' @ t @ ''\"'')
       else
         (case truthy tool of
            None \<Rightarrow> ''start \"\" \"'' @ trim app @ ''\"''
          | Some t \<Rightarrow> ''start \"\" cmd.exe /K \"'' @ cd @ '' && '' @ t @ ''\"''))"
  using assms
  by (simp add: buildWindowsLaunch_def sanitizeTerminalApp_def Let_def log_ret command_of_def
        replaceAll_same split: option.splits)

text \<open>
  Claim C5, amended in its last clause. On Windows, for every application name that is
  non-empty after trimming, with \<open>a\<close> the trimmed name in lower case:
  \<^item> \<open>a\<close> is \<open>cmd\<close> or \<open>cmd.exe\<close>: \<open>start "" cmd.exe /K "cd /d "<dir>""\<close>, and with a tool
    command \<open>start "" cmd.exe /K "cd /d "<dir>" && <tool>"\<close>;
  \<^item> \<open>a\<close> is \<open>powershell\<close> or \<open>powershell.exe\<close>:
    \<open>start "" powershell -NoExit -Command "Set-Location '<dir'>';"\<close>, and with a tool command
    \<open>... "Set-Location '<dir'>'; <tool>"\<close>, where \<open><dir'>\<close> is the directory with every single
    quote doubled;
  \<^item> \<open>a\<close> is \<open>wt\<close> or \<open>wt.exe\<close>: \<open>start "" wt.exe new-tab cmd /K\<close> with the payload of the
    first case;
  \<^item> any other name: with a tool command the template of the first case, without one
    exactly \<open>start "" "<app>"\<close> with the trimmed name.
  In the branches that use the \<open>cd /d\<close> prefix (the first, the third and the fallback with a
  tool command) the working directory stands verbatim between double quotes, no character
  of it escaped: the replacement of \<open>"\<close> by \<open>"\<close> changes nothing. A tool command is present
  when it is a non-empty string.
\<close>

theorem windows_launch_templates:
  assumes "isDesktopApp p" and "\<not> isMacOS p" and "isWin p" and "trim app \<noteq> []"
  shows
    "let a = toLowerCase (trim app);
         cd = ''cd /d \"'' @ dir @ ''\"'';
         ps = ''start \"\" powershell -NoExit -Command \"Set-Location '' @ [CHR 0x27]
                @ replaceAll (CHR 0x27) [CHR 0x27, CHR 0x27] dir @ [CHR 0x27];
         c = command_of (buildLaunchCommand os p app dir tool st)
     in (a = ''cmd'' \<or> a = ''cmd.exe'' \<longrightarrow>
           c = Some (case truthy tool of
                       None \<Rightarrow> ''start \"\" cmd.exe /K \"'' @ cd @ ''\"''
                     | Some t \<Rightarrow> ''start \"\" cmd.exe /K \"'' @ cd @ '' && '' @ t @ ''\"''))
      \<and> (a = ''powershell'' \<or> a = ''powershell.exe'' \<longrightarrow>
           c = Some (case truthy tool of
                       None \<Rightarrow> ps @ '';\"''
                     | Some t \<Rightarrow> ps @ ''; '' @ t @ ''\"''))
      \<and> (a = ''wt'' \<or> a = ''wt.exe'' \<longrightarrow>
           c = Some (case truthy tool of
                       None \<Rightarrow> ''start \"\" wt.exe new-tab cmd /K \"'' @ cd @ ''\"''
                     | Some t \<Rightarrow> ''start \"\" wt.exe new-tab cmd /K \"'' @ cd @ '' && '' @ t @ ''\"''))
      \<and> (a \<notin> {''cmd'', ''cmd.exe'', ''powershell'', ''powershell.exe'', ''wt'', ''wt.exe''} \<longrightarrow>
           c = Some (case truthy tool of
                       None \<Rightarrow> ''start \"\" \"'' @ trim app @ ''\"''
                     | Some t \<Rightarrow> ''start \"\" cmd.exe /K \"'' @ cd @ '' && '' @ t @ ''\"''))"
proof -
  have eq: "buildLaunchCommand os p app dir tool st = buildWindowsLaunch app dir tool st"
    using assms(1,2,3) by (simp add: buildLaunchCommand_def)
  show ?thesis
    unfolding eq buildWindowsLaunch_command[OF assms(4)]
    by (simp add: Let_def split: option.splits)
qed

lemma trim_notepad: "trim ''notepad'' = ''notepad''"
  by (simp add: trim_def isWhiteSpace_def)

lemma toLowerCase_notepad: "toLowerCase ''notepad'' = ''notepad''"
  by (simp add: toLowerCase_def toLowerChar_def)

lemma trim_powershell: "trim ''powershell'' = ''powershell''"
  by (simp add: trim_def isWhiteSpace_def)

lemma toLowerCase_powershell: "toLowerCase ''powershell'' = ''powershell''"
  by (simp add: toLowerCase_def toLowerChar_def)

lemma truthy_undefined: "truthy None = None"
  by (simp add: truthy_def)

lemma winPlatform_flags:
  "isDesktopApp winPlatform" "\<not> isMacOS winPlatform" "isWin winPlatform"
  by (simp_all add: winPlatform_def)

text \<open>
  Claim C5 ends: in every branch the working directory is embedded verbatim inside double
  quotes. Two branches do not: for another application name and no tool command the command
  is \<open>start "" "notepad"\<close>, which does not mention the working directory \<open>C:/vault\<close>; and
  the PowerShell branch puts the directory in single quotes and doubles each single quote, so
  the directory \<open>C:/it's\<close> does not occur in the command.
\<close>

theorem windows_directory_counterexample:
  "command_of (buildLaunchCommand mem_node winPlatform ''notepad'' ''C:/vault'' None st0)
     = Some ''start \"\" \"notepad\"''
   \<and> \<not> str_includes ''start \"\" \"notepad\"'' ''C:/vault''
   \<and> command_of (buildLaunchCommand mem_node winPlatform ''powershell'' ''C:/it's'' None st0)
     = Some (''start \"\" powershell -NoExit -Command \"Set-Location '' @ [CHR 0x27] @ ''C:/it''
              @ [CHR 0x27, CHR 0x27] @ ''s'' @ [CHR 0x27] @ '';\"'')
   \<and> \<not> str_includes
         (''start \"\" powershell -NoExit -Command \"Set-Location '' @ [CHR 0x27] @ ''C:/it''
              @ [CHR 0x27, CHR 0x27] @ ''s'' @ [CHR 0x27] @ '';\"'')
         ''C:/it's''"
proof -
  have 1: "command_of (buildLaunchCommand mem_node winPlatform ''notepad'' ''C:/vault'' None st0)
     = Some ''start \"\" \"notepad\"''"
    by (simp add: buildLaunchCommand_def winPlatform_flags buildWindowsLaunch_command
          trim_notepad toLowerCase_notepad truthy_undefined)
  have 2: "\<not> str_includes ''start \"\" \"notepad\"'' ''C:/vault''"
    by simp
  have 3: "command_of (buildLaunchCommand mem_node winPlatform ''powershell'' ''C:/it's'' None st0)
     = Some (''start \"\" powershell -NoExit -Command \"Set-Location '' @ [CHR 0x27] @ ''C:/it''
              @ [CHR 0x27, CHR 0x27] @ ''s'' @ [CHR 0x27] @ '';\"'')"
    by (simp add: buildLaunchCommand_def winPlatform_flags buildWindowsLaunch_command
          trim_powershell toLowerCase_powershell truthy_undefined replaceAll_def)
  have 4: "\<not> str_includes
         (''start \"\" powershell -NoExit -Command \"Set-Location '' @ [CHR 0x27] @ ''C:/it''
              @ [CHR 0x27, CHR 0x27] @ ''s'' @ [CHR 0x27] @ '';\"'')
         ''C:/it's''"
    by simp
  show ?thesis using 1 2 3 4 by blast
qed

lemma trim_padded_CMD: "trim ''  CMD.EXE '' = ''CMD.EXE''"
  by (simp add: trim_def isWhiteSpace_def)

theorem windows_launch_templates_witness:
  "command_of (buildLaunchCommand mem_node winPlatform ''  CMD.EXE '' ''C:/vault'' (Some ''claude'') st0)
     = Some ''start \"\" cmd.exe /K \"cd /d \"C:/vault\" && claude\"''
   \<and> command_of (buildLaunchCommand mem_node winPlatform ''notepad'' ''C:/vault'' None st0)
     = Some ''start \"\" \"notepad\"''
   \<and> command_of (buildLaunchCommand mem_node winPlatform ''notepad'' ''C:/vault'' (Some ''claude'') st0)
     = Some ''start \"\" cmd.exe /K \"cd /d \"C:/vault\" && claude\"''"
proof -
  have n1: "trim ''  CMD.EXE '' \<noteq> []" by (simp add: trim_padded_CMD)
  have n2: "trim ''notepad'' \<noteq> []" by (simp add: trim_notepad)
  from windows_launch_templates[OF winPlatform_flags n1, of "''C:/vault''" mem_node
         "Some ''claude''" st0]
  have 1: "command_of (buildLaunchCommand mem_node winPlatform ''  CMD.EXE '' ''C:/vault''
             (Some ''claude'') st0)
     = Some ''start \"\" cmd.exe /K \"cd /d \"C:/vault\" && claude\"''"
    by (simp add: Let_def trim_padded_CMD toLowerCase_CMD truthy_claude)
  from windows_launch_templates[OF winPlatform_flags n2, of "''C:/vault''" mem_node None st0]
  have 2: "command_of (buildLaunchCommand mem_node winPlatform ''notepad'' ''C:/vault'' None st0)
     = Some ''start \"\" \"notepad\"''"
    by (simp add: Let_def trim_notepad toLowerCase_notepad truthy_undefined)
  from windows_launch_templates[OF winPlatform_flags n2, of "''C:/vault''" mem_node
         "Some ''claude''" st0]
  have 3: "command_of (buildLaunchCommand mem_node winPlatform ''notepad'' ''C:/vault''
             (Some ''claude'') st0)
     = Some ''start \"\" cmd.exe /K \"cd /d \"C:/vault\" && claude\"''"
    by (simp add: Let_def trim_notepad toLowerCase_notepad truthy_claude)
  show ?thesis using 1 2 3 by blast
qed

lemma buildUnixLaunch_command:
  assumes "trim app \<noteq> []"
  shows "command_of (buildUnixLaunch app tool st) =
     Some (case truthy tool of
             None \<Rightarrow> trim app
           | Some t \<Rightarrow>
               if str_includes (trim app) ''gnome-terminal''
               then trim app @ '' -- bash -lc \"cd \"$PWD\"; '' @ t @ ''; exec \"$SHELL\"\"''
               else trim app @ '' -e bash -lc \"cd \"$PWD\"; '' @ t @ ''; exec \"$SHELL\"\"'')"
  using assms
  by (simp add: buildUnixLaunch_def sanitizeTerminalApp_def Let_def log_ret command_of_def
        split: option.splits)

text \<open>
  Claim C6, amended in its clause for \<open>konsole\<close>. On a Linux/BSD desktop (a desktop that is
  neither macOS nor Windows), for every application name that is non-empty after trimming,
  with \<open>a\<close> the trimmed name: without a tool command the command is exactly \<open>a\<close>; with a
  tool command \<open>t\<close> the fragment \<open>cd "$PWD"; t; exec "$SHELL"\<close> is wrapped as
  \<open>a -- bash -lc "<fragment>"\<close> when \<open>a\<close> contains \<open>gnome-terminal\<close>, and as
  \<open>a -e bash -lc "<fragment>"\<close> when \<open>a\<close> contains \<open>konsole\<close> and not \<open>gnome-terminal\<close>, and
  for every name that contains neither. The command does not depend on the working
  directory.
\<close>

theorem unix_launch_templates:
  assumes "isDesktopApp p" and "\<not> isMacOS p" and "\<not> isWin p" and "trim app \<noteq> []"
  shows
    "let a = trim app;
         c = command_of (buildLaunchCommand os p app dir tool st)
     in (truthy tool = None \<longrightarrow> c = Some a)
      \<and> (\<forall>t. truthy tool = Some t \<and> str_includes a ''gnome-terminal'' \<longrightarrow>
             c = Some (a @ '' -- bash -lc \"'' @ ''cd \"$PWD\"; '' @ t @ ''; exec \"$SHELL\"'' @ ''\"''))
      \<and> (\<forall>t. truthy tool = Some t \<and> str_includes a ''konsole''
               \<and> \<not> str_includes a ''gnome-terminal'' \<longrightarrow>
             c = Some (a @ '' -e bash -lc \"'' @ ''cd \"$PWD\"; '' @ t @ ''; exec \"$SHELL\"'' @ ''\"''))
      \<and> (\<forall>t. truthy tool = Some t \<and> \<not> str_includes a ''konsole''
               \<and> \<not> str_includes a ''gnome-terminal'' \<longrightarrow>
             c = Some (a @ '' -e bash -lc \"'' @ ''cd \"$PWD\"; '' @ t @ ''; exec \"$SHELL\"'' @ ''\"''))
      \<and> (\<forall>dir'. command_of (buildLaunchCommand os p app dir' tool st) = c)"
proof -
  have eq: "buildLaunchCommand os p app d tool st = buildUnixLaunch app tool st" for d
    using assms(1,2,3) by (simp add: buildLaunchCommand_def)
  show ?thesis
    unfolding eq buildUnixLaunch_command[OF assms(4)]
    by (simp add: Let_def)
qed

lemma linuxPlatform_flags:
  "isDesktopApp linuxPlatform" "\<not> isMacOS linuxPlatform" "\<not> isWin linuxPlatform"
  by (simp_all add: linuxPlatform_def)

lemma trim_gnome: "trim ''gnome-terminal'' = ''gnome-terminal''"
  by (simp add: trim_def isWhiteSpace_def)

lemma trim_konsole: "trim ''konsole'' = ''konsole''"
  by (simp add: trim_def isWhiteSpace_def)

lemma trim_usr_gnome: "trim ''/usr/bin/gnome-terminal'' = ''/usr/bin/gnome-terminal''"
  by (simp add: trim_def isWhiteSpace_def)

lemma trim_usr_konsole: "trim '' /usr/bin/konsole '' = ''/usr/bin/konsole''"
  by (simp add: trim_def isWhiteSpace_def)

theorem unix_launch_templates_witness:
  "command_of (buildLaunchCommand mem_node linuxPlatform ''xterm'' ''/vault'' None st0)
     = Some ''xterm''
   \<and> command_of (buildLaunchCommand mem_node linuxPlatform ''/usr/bin/gnome-terminal'' ''/vault''
        (Some ''claude'') st0)
     = Some ''/usr/bin/gnome-terminal -- bash -lc \"cd \"$PWD\"; claude; exec \"$SHELL\"\"''
   \<and> command_of (buildLaunchCommand mem_node linuxPlatform '' /usr/bin/konsole '' ''/vault''
        (Some ''claude'') st0)
     = Some ''/usr/bin/konsole -e bash -lc \"cd \"$PWD\"; claude; exec \"$SHELL\"\"''
   \<and> command_of (buildLaunchCommand mem_node linuxPlatform ''xterm'' ''/vault''
        (Some ''claude'') st0)
     = Some ''xterm -e bash -lc \"cd \"$PWD\"; claude; exec \"$SHELL\"\"''
   \<and> command_of (buildLaunchCommand mem_node linuxPlatform ''xterm'' ''/other'' (Some ''claude'') st0)
     = command_of (buildLaunchCommand mem_node linuxPlatform ''xterm'' ''/vault''
        (Some ''claude'') st0)"
proof -
  have n1: "trim ''xterm'' \<noteq> []" by (simp add: trim_xterm)
  have n2: "trim ''/usr/bin/gnome-terminal'' \<noteq> []" by (simp add: trim_usr_gnome)
  have n3: "trim '' /usr/bin/konsole '' \<noteq> []" by (simp add: trim_usr_konsole)
  have g2: "str_includes ''/usr/bin/gnome-terminal'' ''gnome-terminal''" by simp
  have k3: "str_includes ''/usr/bin/konsole'' ''konsole''" by simp
  have g3: "\<not> str_includes ''/usr/bin/konsole'' ''gnome-terminal''" by simp
  have k1: "\<not> str_includes ''xterm'' ''konsole''" by simp
  have g1: "\<not> str_includes ''xterm'' ''gnome-terminal''" by simp
  from unix_launch_templates[OF linuxPlatform_flags n1, of mem_node "''/vault''" None st0]
  have 1: "command_of (buildLaunchCommand mem_node linuxPlatform ''xterm'' ''/vault'' None st0)
     = Some ''xterm''"
    by (simp add: Let_def trim_xterm truthy_undefined)
  from unix_launch_templates[OF linuxPlatform_flags n2, of mem_node "''/vault''"
         "Some ''claude''" st0] g2
  have 2: "command_of (buildLaunchCommand mem_node linuxPlatform ''/usr/bin/gnome-terminal''
        ''/vault'' (Some ''claude'') st0)
     = Some ''/usr/bin/gnome-terminal -- bash -lc \"cd \"$PWD\"; claude; exec \"$SHELL\"\"''"
    by (simp add: Let_def trim_usr_gnome truthy_claude del: str_includes.simps)
  from unix_launch_templates[OF linuxPlatform_flags n3, of mem_node "''/vault''"
         "Some ''claude''" st0] k3 g3
  have 3: "command_of (buildLaunchCommand mem_node linuxPlatform '' /usr/bin/konsole '' ''/vault''
        (Some ''claude'') st0)
     = Some ''/usr/bin/konsole -e bash -lc \"cd \"$PWD\"; claude; exec \"$SHELL\"\"''"
    by (simp add: Let_def trim_usr_konsole truthy_claude del: str_includes.simps)
  from unix_launch_templates[OF linuxPlatform_flags n1, of mem_node "''/vault''"
         "Some ''claude''" st0] k1 g1
  have 4: "command_of (buildLaunchCommand mem_node linuxPlatform ''xterm'' ''/vault''
        (Some ''claude'') st0)
     = Some ''xterm -e bash -lc \"cd \"$PWD\"; claude; exec \"$SHELL\"\"''"
    by (simp add: Let_def trim_xterm truthy_claude del: str_includes.simps)
  from unix_launch_templates[OF linuxPlatform_flags n1, of mem_node "''/vault''"
         "Some ''claude''" st0]
  have 5: "command_of (buildLaunchCommand mem_node linuxPlatform ''xterm'' ''/other''
        (Some ''claude'') st0)
     = command_of (buildLaunchCommand mem_node linuxPlatform ''xterm'' ''/vault''
        (Some ''claude'') st0)"
    unfolding Let_def by blast
  show ?thesis using 1 2 3 4 5 by blast
qed

lemma trim_konsole_gnome:
  "trim ''/usr/bin/konsole-gnome-terminal'' = ''/usr/bin/konsole-gnome-terminal''"
  by (simp add: trim_def isWhiteSpace_def)

text \<open>
  Claim C6 says that an application name containing \<open>konsole\<close> gets the \<open>-e bash -lc\<close>
  form. The name \<open>/usr/bin/konsole-gnome-terminal\<close> contains \<open>konsole\<close>, and it contains
  \<open>gnome-terminal\<close> too, which the code tests first: the command has the \<open>--\<close> form.
\<close>

theorem unix_konsole_counterexample:
  "str_includes ''/usr/bin/konsole-gnome-terminal'' ''konsole''
   \<and> command_of (buildLaunchCommand mem_node linuxPlatform ''/usr/bin/konsole-gnome-terminal''
         ''/vault'' (Some ''claude'') st0)
       = Some ''/usr/bin/konsole-gnome-terminal -- bash -lc \"cd \"$PWD\"; claude; exec \"$SHELL\"\"''
   \<and> command_of (buildLaunchCommand mem_node linuxPlatform ''/usr/bin/konsole-gnome-terminal''
         ''/vault'' (Some ''claude'') st0)
       \<noteq> Some ''/usr/bin/konsole-gnome-terminal -e bash -lc \"cd \"$PWD\"; claude; exec \"$SHELL\"\"''"
proof -
  have 1: "str_includes ''/usr/bin/konsole-gnome-terminal'' ''konsole''" by simp
  have g: "str_includes ''/usr/bin/konsole-gnome-terminal'' ''gnome-terminal''" by simp
  have 2: "command_of (buildLaunchCommand mem_node linuxPlatform ''/usr/bin/konsole-gnome-terminal''
         ''/vault'' (Some ''claude'') st0)
       = Some ''/usr/bin/konsole-gnome-terminal -- bash -lc \"cd \"$PWD\"; claude; exec \"$SHELL\"\"''"
    using g
    by (simp add: buildLaunchCommand_def linuxPlatform_flags buildUnixLaunch_command
          trim_konsole_gnome truthy_claude del: str_includes.simps)
  show ?thesis using 1 2 by simp
qed

text \<open>
  Claim C1 does not hold of the code. \<open>composeLaunchCommand\<close> passes
  \<open>{ useWslOnWindows: this.settings.enableWslOnWindows }\<close> as a fourth argument, but
  \<open>buildLaunchCommand\<close> declares three parameters, so the flag reaches nothing: the outcome
  with the flag set equals the outcome with the flag cleared, and on Windows with
  \<open>cmd.exe\<close>, the vault \<open>C:/vault\<close> and the tool \<open>claude\<close> the command with the flag set is
  the native \<open>start "" cmd.exe /K "cd /d "C:/vault" && claude"\<close>.
\<close>

theorem wsl_flag_ignored:
  "composeLaunchCommand os p adapter (s\<lparr>enableWslOnWindows := True\<rparr>) tool st
     = composeLaunchCommand os p adapter (s\<lparr>enableWslOnWindows := False\<rparr>) tool st
   \<and> command_of (composeLaunchCommand mem_node winPlatform (Some ''C:/vault'')
        ((DEFAULT_SETTINGS winPlatform)\<lparr>enableWslOnWindows := True\<rparr>) (Some ''claude'') st0)
     = Some ''start \"\" cmd.exe /K \"cd /d \"C:/vault\" && claude\"''"
proof -
  have g: "composeLaunchCommand os p adapter (s\<lparr>enableWslOnWindows := True\<rparr>) tool st
     = composeLaunchCommand os p adapter (s\<lparr>enableWslOnWindows := False\<rparr>) tool st"
    by (cases adapter) (simp_all add: composeLaunchCommand_def call_with_surplus_def)
  have app: "getCurrentTerminalApp winPlatform (terminalApp (DEFAULT_SETTINGS winPlatform))
             = ''cmd.exe''"
    by (simp add: getCurrentTerminalApp_def getCurrentDesktopPlatform_def winPlatform_def
          DEFAULT_SETTINGS_def buildDefaultTerminalAppSetting_def defaultTerminalApp_def
          setSlot_def getSlot_def noTerminalApp_def)
  have c: "command_of (composeLaunchCommand mem_node winPlatform (Some ''C:/vault'')
        ((DEFAULT_SETTINGS winPlatform)\<lparr>enableWslOnWindows := True\<rparr>) (Some ''claude'') st0)
     = Some ''start \"\" cmd.exe /K \"cd /d \"C:/vault\" && claude\"''"
    by (simp add: composeLaunchCommand_def call_with_surplus_def app win_cmd_claude
          bind_def ret_def logger_log_def command_of_def)
  show ?thesis using g c by blast
qed



section \<open>The settings\<close>

lemma trim_idem: "trim (trim s) = trim s"
proof -
  define u where "u = dropWhile isWhiteSpace s"
  define v where "v = dropWhile isWhiteSpace (rev u)"
  have "dropWhile isWhiteSpace (rev v) = rev v"
  proof (cases "v = []")
    case True
    then show ?thesis by simp
  next
    case False
    have "rev u = takeWhile isWhiteSpace (rev u) @ v" by (simp add: v_def)
    then have "rev (rev u) = rev (takeWhile isWhiteSpace (rev u) @ v)" by (rule arg_cong)
    then have eq: "u = rev v @ rev (takeWhile isWhiteSpace (rev u))" by simp
    have "hd u = hd (rev v @ rev (takeWhile isWhiteSpace (rev u)))"
      using eq by (rule arg_cong)
    also have "\<dots> = hd (rev v)" using False by simp
    finally have h: "hd (rev v) = hd u" by simp
    have "u \<noteq> []" using False by (auto simp: v_def)
    then have "\<not> isWhiteSpace (hd u)" unfolding u_def by (rule hd_dropWhile)
    then show ?thesis using h by (simp add: dropWhile_eq_self_iff)
  qed
  moreover have "dropWhile isWhiteSpace v = v" by (simp add: v_def)
  moreover have "trim s = rev v" by (simp add: trim_def u_def v_def)
  ultimately show ?thesis by (simp add: trim_def)
qed

lemma getProp_terminalAppToJs:
  "getProp (terminalAppToJs t) ''win'' = (case win t of None \<Rightarrow> JUndefined | Some s \<Rightarrow> JString s)"
  "getProp (terminalAppToJs t) ''macos'' = (case macos t of None \<Rightarrow> JUndefined | Some s \<Rightarrow> JString s)"
  "getProp (terminalAppToJs t) ''linux'' = (case linux t of None \<Rightarrow> JUndefined | Some s \<Rightarrow> JString s)"
  by (simp_all add: terminalAppToJs_def slotToJs_def split: option.splits)

lemma normalizeTerminalAppSetting_record:
  assumes "isRecord v"
  shows "normalizeTerminalAppSetting p v fb =
     \<lparr>win = (case getProp v ''win'' of JString s \<Rightarrow> Some (trim s) | _ \<Rightarrow> None),
      macos = (case getProp v ''macos'' of JString s \<Rightarrow> Some (trim s) | _ \<Rightarrow> None),
      linux = (case getProp v ''linux'' of JString s \<Rightarrow> Some (trim s) | _ \<Rightarrow> None)\<rparr>"
  using assms
  by (cases v) (simp_all add: normalizeTerminalAppSetting_def Let_def noTerminalApp_def
                  split: jsval.splits)

lemma normalizeTerminalAppSetting_toJs:
  "normalizeTerminalAppSetting p (terminalAppToJs t) fb =
     \<lparr>win = map_option trim (win t), macos = map_option trim (macos t),
      linux = map_option trim (linux t)\<rparr>"
proof -
  have "isRecord (terminalAppToJs t)" by (simp add: terminalAppToJs_def)
  then show ?thesis
    by (simp add: normalizeTerminalAppSetting_record getProp_terminalAppToJs split: option.splits)
qed

lemma trimmedSlots_setSlot: "trim v = v \<Longrightarrow> trimmedSlots (setSlot pf v noTerminalApp)"
  by (cases pf) (simp_all add: trimmedSlots_def setSlot_def noTerminalApp_def)

lemma trim_defaultTerminalApp: "trim (defaultTerminalApp p) = defaultTerminalApp p"
  by (simp add: defaultTerminalApp_def trim_def isWhiteSpace_def)

lemma trimmedSlots_default: "trimmedSlots (buildDefaultTerminalAppSetting p)"
  by (simp add: buildDefaultTerminalAppSetting_def Let_def trimmedSlots_setSlot
        trim_defaultTerminalApp split: option.splits)
     (simp add: trimmedSlots_def noTerminalApp_def)

lemma trimmedSlots_normalize:
  assumes "trimmedSlots fb"
  shows "trimmedSlots (normalizeTerminalAppSetting p v fb)"
proof (cases "isRecord v")
  case True
  then show ?thesis
    by (simp add: normalizeTerminalAppSetting_record trimmedSlots_def trim_idem split: jsval.splits)
next
  case False
  then show ?thesis
    using assms
    by (cases v)
       (simp_all add: normalizeTerminalAppSetting_def Let_def trimmedSlots_setSlot trim_idem
          split: option.splits)
qed

lemma getProp_settingsToJs:
  "getProp (settingsToJs s) ''terminalApp'' = terminalAppToJs (terminalApp s)"
  "getProp (settingsToJs s) ''enableClaude'' = JBoolean (enableClaude s)"
  "getProp (settingsToJs s) ''enableCodex'' = JBoolean (enableCodex s)"
  "getProp (settingsToJs s) ''enableCursor'' = JBoolean (enableCursor s)"
  "getProp (settingsToJs s) ''enableGemini'' = JBoolean (enableGemini s)"
  "getProp (settingsToJs s) ''enableOpencode'' = JBoolean (enableOpencode s)"
  "getProp (settingsToJs s) ''enableWslOnWindows'' = JBoolean (enableWslOnWindows s)"
  by (simp_all add: settingsToJs_def)

text \<open>
  Claim C7. \<open>normalizeSettings\<close> is idempotent: for every value \<open>x\<close> (\<open>null\<close>,
  \<open>undefined\<close>, a boolean, a number, a string, an array or an object, so also an object
  whose \<open>terminalApp\<close> is a legacy bare string), normalising the settings object that
  \<open>normalizeSettings(x)\<close> returned gives that settings object again.
\<close>

theorem normalizeSettings_idempotent:
  "normalizeSettings p (settingsToJs (normalizeSettings p x)) = normalizeSettings p x"
proof -
  let ?n = "normalizeSettings p x"
  have r: "isRecord (settingsToJs ?n)" by (simp add: settingsToJs_def)
  have "trimmedSlots (terminalApp (DEFAULT_SETTINGS p))"
    by (simp add: DEFAULT_SETTINGS_def trimmedSlots_default)
  then have "trimmedSlots (terminalApp ?n)"
    by (simp add: normalizeSettings_def Let_def trimmedSlots_normalize)
  then have t: "\<lparr>win = map_option trim (win (terminalApp ?n)),
                 macos = map_option trim (macos (terminalApp ?n)),
                 linux = map_option trim (linux (terminalApp ?n))\<rparr> = terminalApp ?n"
    by (simp add: trimmedSlots_def)
  have "normalizeSettings p (settingsToJs ?n) =
          \<lparr>terminalApp = terminalApp ?n, enableClaude = enableClaude ?n,
           enableCodex = enableCodex ?n, enableCursor = enableCursor ?n,
           enableGemini = enableGemini ?n, enableOpencode = enableOpencode ?n,
           enableWslOnWindows = enableWslOnWindows ?n\<rparr>"
    unfolding normalizeSettings_def[of p "settingsToJs ?n"] 
    using r t
    by (simp add: Let_def getProp_settingsToJs normalizeTerminalAppSetting_toJs readBoolean_def)
  then show ?thesis by simp
qed

lemma normalizeTerminalAppSetting_string:
  "normalizeTerminalAppSetting p (JString s) fb =
     (case getCurrentDesktopPlatform p of
        None \<Rightarrow> fb
      | Some Win \<Rightarrow> \<lparr>win = Some (trim s), macos = None, linux = None\<rparr>
      | Some Macos \<Rightarrow> \<lparr>win = None, macos = Some (trim s), linux = None\<rparr>
      | Some Linux \<Rightarrow> \<lparr>win = None, macos = None, linux = Some (trim s)\<rparr>)"
  by (simp add: normalizeTerminalAppSetting_def Let_def setSlot_def noTerminalApp_def
      split: option.splits DesktopPlatform.splits)

lemma normalizeTerminalAppSetting_other:
  assumes "\<forall>s. v \<noteq> JString s" and "\<not> isRecord v"
  shows "normalizeTerminalAppSetting p v fb = fb"
  using assms by (cases v) (simp_all add: normalizeTerminalAppSetting_def Let_def)

lemma normalizeSettings_not_record:
  assumes "\<not> isRecord x"
  shows "normalizeSettings p x = DEFAULT_SETTINGS p"
  using assms
  by (simp add: normalizeSettings_def Let_def readBoolean_def normalizeTerminalAppSetting_def
        DEFAULT_SETTINGS_def)

text \<open>
  Claim C8, amended for arrays and for a platform without a slot. \<open>normalizeSettings\<close> is a
  total function that normalises field by field. With \<open>source\<close> the stored value when it
  is an object or an array and \<open>{}\<close> otherwise:
  \<^item> a stored value that is not an object, and a stored array, give the defaults;
  \<^item> each flag is the stored property when that is a boolean, else the flag's default;
  \<^item> a \<open>terminalApp\<close> that is a string \<open>s\<close> gives the trimmed \<open>s\<close> in the slot of the
    current desktop platform and no other slot; when there is no current desktop platform
    it gives the default of the field, which then has no slot;
  \<^item> a \<open>terminalApp\<close> that is an object gives, slot by slot, the trimmed property when
    that is a string, and no slot otherwise;
  \<^item> a \<open>terminalApp\<close> that is an array gives no slot at all;
  \<^item> a \<open>terminalApp\<close> that is \<open>undefined\<close>, \<open>null\<close>, a boolean or a number gives the
    default of the field.
\<close>

theorem normalizeSettings_fields:
  "let source = (if isRecord x then x else JObject []);
       v = getProp source ''terminalApp'';
       d = DEFAULT_SETTINGS p;
       n = normalizeSettings p x
   in (\<not> isRecord x \<longrightarrow> n = d)
    \<and> (\<forall>xs. x = JArray xs \<longrightarrow> n = d)
    \<and> enableClaude n
        = (case getProp source ''enableClaude'' of JBoolean b \<Rightarrow> b | _ \<Rightarrow> enableClaude d)
    \<and> enableCodex n
        = (case getProp source ''enableCodex'' of JBoolean b \<Rightarrow> b | _ \<Rightarrow> enableCodex d)
    \<and> enableCursor n
        = (case getProp source ''enableCursor'' of JBoolean b \<Rightarrow> b | _ \<Rightarrow> enableCursor d)
    \<and> enableGemini n
        = (case getProp source ''enableGemini'' of JBoolean b \<Rightarrow> b | _ \<Rightarrow> enableGemini d)
    \<and> enableOpencode n
        = (case getProp source ''enableOpencode'' of JBoolean b \<Rightarrow> b | _ \<Rightarrow> enableOpencode d)
    \<and> enableWslOnWindows n
        = (case getProp source ''enableWslOnWindows'' of
             JBoolean b \<Rightarrow> b | _ \<Rightarrow> enableWslOnWindows d)
    \<and> (\<forall>s. v = JString s \<longrightarrow>
          terminalApp n
            = (case getCurrentDesktopPlatform p of
                 None \<Rightarrow> terminalApp d
               | Some Win \<Rightarrow> \<lparr>win = Some (trim s), macos = None, linux = None\<rparr>
               | Some Macos \<Rightarrow> \<lparr>win = None, macos = Some (trim s), linux = None\<rparr>
               | Some Linux \<Rightarrow> \<lparr>win = None, macos = None, linux = Some (trim s)\<rparr>))
    \<and> (getCurrentDesktopPlatform p = None \<longrightarrow> terminalApp d = \<lparr>win = None, macos = None, linux = None\<rparr>)
    \<and> (\<forall>kvs. v = JObject kvs \<longrightarrow>
          terminalApp n
            = \<lparr>win = (case map_of kvs ''win'' of Some (JString s) \<Rightarrow> Some (trim s) | _ \<Rightarrow> None),
               macos = (case map_of kvs ''macos'' of Some (JString s) \<Rightarrow> Some (trim s) | _ \<Rightarrow> None),
               linux = (case map_of kvs ''linux'' of Some (JString s) \<Rightarrow> Some (trim s) | _ \<Rightarrow> None)\<rparr>)
    \<and> (\<forall>xs. v = JArray xs \<longrightarrow> terminalApp n = \<lparr>win = None, macos = None, linux = None\<rparr>)
    \<and> (v = JUndefined \<or> v = JNull \<or> (\<exists>b. v = JBoolean b) \<or> (\<exists>i. v = JNumber i)
          \<longrightarrow> terminalApp n = terminalApp d)"
proof -
  define source where "source = (if isRecord x then x else JObject [])"
  define v where "v = getProp source ''terminalApp''"
  define d where "d = DEFAULT_SETTINGS p"
  define n where "n = normalizeSettings p x"
  have ta: "terminalApp n = normalizeTerminalAppSetting p v (terminalApp d)"
    by (simp add: n_def v_def d_def source_def normalizeSettings_def Let_def)
  have 1: "\<not> isRecord x \<longrightarrow> n = d"
    by (simp add: n_def d_def normalizeSettings_not_record)
  have a1: "\<forall>xs. x = JArray xs \<longrightarrow> n = d"
    by (simp add: n_def d_def normalizeSettings_def Let_def readBoolean_def
          normalizeTerminalAppSetting_def DEFAULT_SETTINGS_def)
  have 2: "enableClaude n
        = (case getProp source ''enableClaude'' of JBoolean b \<Rightarrow> b | _ \<Rightarrow> enableClaude d)"
    "enableCodex n
        = (case getProp source ''enableCodex'' of JBoolean b \<Rightarrow> b | _ \<Rightarrow> enableCodex d)"
    "enableCursor n
        = (case getProp source ''enableCursor'' of JBoolean b \<Rightarrow> b | _ \<Rightarrow> enableCursor d)"
    "enableGemini n
        = (case getProp source ''enableGemini'' of JBoolean b \<Rightarrow> b | _ \<Rightarrow> enableGemini d)"
    "enableOpencode n
        = (case getProp source ''enableOpencode'' of JBoolean b \<Rightarrow> b | _ \<Rightarrow> enableOpencode d)"
    "enableWslOnWindows n
        = (case getProp source ''enableWslOnWindows'' of
             JBoolean b \<Rightarrow> b | _ \<Rightarrow> enableWslOnWindows d)"
    unfolding n_def d_def source_def
    by (simp_all add: normalizeSettings_def Let_def readBoolean_def)
  have 3: "\<forall>s. v = JString s \<longrightarrow>
          terminalApp n
            = (case getCurrentDesktopPlatform p of
                 None \<Rightarrow> terminalApp d
               | Some Win \<Rightarrow> \<lparr>win = Some (trim s), macos = None, linux = None\<rparr>
               | Some Macos \<Rightarrow> \<lparr>win = None, macos = Some (trim s), linux = None\<rparr>
               | Some Linux \<Rightarrow> \<lparr>win = None, macos = None, linux = Some (trim s)\<rparr>)"
    by (simp add: ta normalizeTerminalAppSetting_string)
  have a3: "getCurrentDesktopPlatform p = None
              \<longrightarrow> terminalApp d = \<lparr>win = None, macos = None, linux = None\<rparr>"
    by (simp add: d_def DEFAULT_SETTINGS_def buildDefaultTerminalAppSetting_def noTerminalApp_def)
  have 4: "\<forall>kvs. v = JObject kvs \<longrightarrow>
          terminalApp n
            = \<lparr>win = (case map_of kvs ''win'' of Some (JString s) \<Rightarrow> Some (trim s) | _ \<Rightarrow> None),
               macos = (case map_of kvs ''macos'' of Some (JString s) \<Rightarrow> Some (trim s) | _ \<Rightarrow> None),
               linux = (case map_of kvs ''linux'' of Some (JString s) \<Rightarrow> Some (trim s) | _ \<Rightarrow> None)\<rparr>"
    by (auto simp: ta normalizeTerminalAppSetting_record split: option.splits jsval.splits)
  have a4: "\<forall>xs. v = JArray xs \<longrightarrow> terminalApp n = \<lparr>win = None, macos = None, linux = None\<rparr>"
    by (simp add: ta normalizeTerminalAppSetting_record)
  have 5: "v = JUndefined \<or> v = JNull \<or> (\<exists>b. v = JBoolean b) \<or> (\<exists>i. v = JNumber i)
          \<longrightarrow> terminalApp n = terminalApp d"
    by (auto simp: ta normalizeTerminalAppSetting_other)
  show ?thesis
    unfolding Let_def source_def[symmetric] v_def[symmetric] d_def[symmetric] n_def[symmetric]
    using 1 a1 2 3 a3 4 a4 5 by blast
qed

lemma trim_padded_iTerm: "trim ''  iTerm '' = ''iTerm''"
  by (simp add: trim_def isWhiteSpace_def)

lemma trim_padded_wt: "trim '' wt '' = ''wt''"
  by (simp add: trim_def isWhiteSpace_def)

lemma getCurrentDesktopPlatform_mac: "getCurrentDesktopPlatform macPlatform = Some Macos"
  by (simp add: getCurrentDesktopPlatform_def macPlatform_def)

lemma terminalApp_default_mac:
  "terminalApp (DEFAULT_SETTINGS macPlatform) = \<lparr>win = None, macos = Some ''Terminal'', linux = None\<rparr>"
  by (simp add: DEFAULT_SETTINGS_def buildDefaultTerminalAppSetting_def
        getCurrentDesktopPlatform_def defaultTerminalApp_def macPlatform_def setSlot_def
        noTerminalApp_def)

lemma terminalApp_default_linux:
  "terminalApp (DEFAULT_SETTINGS linuxPlatform)
     = \<lparr>win = None, macos = None, linux = Some ''x-terminal-emulator''\<rparr>"
  by (simp add: DEFAULT_SETTINGS_def buildDefaultTerminalAppSetting_def
        getCurrentDesktopPlatform_def defaultTerminalApp_def linuxPlatform_def setSlot_def
        noTerminalApp_def)

lemma terminalApp_default_other:
  "terminalApp (DEFAULT_SETTINGS otherDesktopPlatform) = \<lparr>win = None, macos = None, linux = None\<rparr>"
  by (simp add: DEFAULT_SETTINGS_def buildDefaultTerminalAppSetting_def
        getCurrentDesktopPlatform_def otherDesktopPlatform_def noTerminalApp_def)

lemma getCurrentDesktopPlatform_other: "getCurrentDesktopPlatform otherDesktopPlatform = None"
  by (simp add: getCurrentDesktopPlatform_def otherDesktopPlatform_def)

theorem normalizeSettings_fields_witness:
  "normalizeSettings macPlatform JNull = DEFAULT_SETTINGS macPlatform
   \<and> normalizeSettings macPlatform (JArray [JString ''kitty'']) = DEFAULT_SETTINGS macPlatform
   \<and> terminalApp (normalizeSettings macPlatform
         (JObject [(''terminalApp'', JString ''  iTerm ''), (''enableClaude'', JBoolean True),
                   (''enableCodex'', JString ''yes'')]))
       = \<lparr>win = None, macos = Some ''iTerm'', linux = None\<rparr>
   \<and> enableClaude (normalizeSettings macPlatform
         (JObject [(''terminalApp'', JString ''  iTerm ''), (''enableClaude'', JBoolean True),
                   (''enableCodex'', JString ''yes'')]))
   \<and> \<not> enableCodex (normalizeSettings macPlatform
         (JObject [(''terminalApp'', JString ''  iTerm ''), (''enableClaude'', JBoolean True),
                   (''enableCodex'', JString ''yes'')]))
   \<and> terminalApp (normalizeSettings otherDesktopPlatform
         (JObject [(''terminalApp'', JString ''kitty'')]))
       = \<lparr>win = None, macos = None, linux = None\<rparr>
   \<and> terminalApp (normalizeSettings macPlatform
         (JObject [(''terminalApp'',
            JObject [(''win'', JString '' wt ''), (''macos'', JNumber 3)])]))
       = \<lparr>win = Some ''wt'', macos = None, linux = None\<rparr>
   \<and> terminalApp (normalizeSettings linuxPlatform
         (JObject [(''terminalApp'', JArray [JString ''kitty''])]))
       = \<lparr>win = None, macos = None, linux = None\<rparr>
   \<and> terminalApp (normalizeSettings macPlatform (JObject [(''terminalApp'', JNumber 7)]))
       = \<lparr>win = None, macos = Some ''Terminal'', linux = None\<rparr>"
proof -
  let ?a = "JObject [(''terminalApp'', JString ''  iTerm ''), (''enableClaude'', JBoolean True),
                   (''enableCodex'', JString ''yes'')]"
  let ?b = "JObject [(''terminalApp'',
            JObject [(''win'', JString '' wt ''), (''macos'', JNumber 3)])]"
  let ?c = "JObject [(''terminalApp'', JNumber 7)]"
  let ?e = "JObject [(''terminalApp'', JArray [JString ''kitty''])]"
  let ?f = "JObject [(''terminalApp'', JString ''kitty'')]"
  from normalizeSettings_fields[of JNull macPlatform]
  have 1: "normalizeSettings macPlatform JNull = DEFAULT_SETTINGS macPlatform"
    by (simp add: Let_def)
  from normalizeSettings_fields[of "JArray [JString ''kitty'']" macPlatform]
  have 2: "normalizeSettings macPlatform (JArray [JString ''kitty'']) = DEFAULT_SETTINGS macPlatform"
    by (simp add: Let_def)
  from normalizeSettings_fields[of ?a macPlatform]
  have 3: "terminalApp (normalizeSettings macPlatform ?a)
             = \<lparr>win = None, macos = Some ''iTerm'', linux = None\<rparr>"
    and 4: "enableClaude (normalizeSettings macPlatform ?a)"
    and 5: "\<not> enableCodex (normalizeSettings macPlatform ?a)"
    by (simp_all add: Let_def getCurrentDesktopPlatform_mac trim_padded_iTerm DEFAULT_SETTINGS_def)
  from normalizeSettings_fields[of ?f otherDesktopPlatform]
  have 6: "terminalApp (normalizeSettings otherDesktopPlatform ?f)
             = \<lparr>win = None, macos = None, linux = None\<rparr>"
    by (simp add: Let_def getCurrentDesktopPlatform_other)
  from normalizeSettings_fields[of ?b macPlatform]
  have 7: "terminalApp (normalizeSettings macPlatform ?b)
             = \<lparr>win = Some ''wt'', macos = None, linux = None\<rparr>"
    by (simp add: Let_def trim_padded_wt)
  from normalizeSettings_fields[of ?e linuxPlatform]
  have 8: "terminalApp (normalizeSettings linuxPlatform ?e)
             = \<lparr>win = None, macos = None, linux = None\<rparr>"
    by (simp add: Let_def)
  from normalizeSettings_fields[of ?c macPlatform]
  have 9: "terminalApp (normalizeSettings macPlatform ?c)
             = \<lparr>win = None, macos = Some ''Terminal'', linux = None\<rparr>"
    by (simp add: Let_def terminalApp_default_mac)
  show ?thesis using 1 2 3 4 5 6 7 8 9 by blast
qed

text \<open>
  Claim C8 says that a terminal-app value that is neither a string nor a mapping falls back
  to the default of the field, and that a bare string becomes the slot of the current
  platform. An array is no mapping, yet \<open>isRecord\<close> accepts it: on Linux
  \<open>terminalApp: ["kitty"]\<close> gives an object without slots, not the default with its
  \<open>linux\<close> slot. And on a desktop that reports none of the three platforms the bare string
  \<open>kitty\<close> is dropped.
\<close>

theorem normalizeSettings_array_counterexample:
  "terminalApp (normalizeSettings linuxPlatform
         (JObject [(''terminalApp'', JArray [JString ''kitty''])]))
       = \<lparr>win = None, macos = None, linux = None\<rparr>
   \<and> terminalApp (DEFAULT_SETTINGS linuxPlatform)
       = \<lparr>win = None, macos = None, linux = Some ''x-terminal-emulator''\<rparr>
   \<and> terminalApp (normalizeSettings otherDesktopPlatform
         (JObject [(''terminalApp'', JString ''kitty'')]))
       = \<lparr>win = None, macos = None, linux = None\<rparr>"
  by (simp add: terminalApp_default_linux terminalApp_default_other normalizeSettings_def
        normalizeTerminalAppSetting_record normalizeTerminalAppSetting_string
        getCurrentDesktopPlatform_other)

end
